theory Spec2Isabelle
  imports Complex_Main "HOL-Library.AList"
begin

text \<open>
  A Brunch plugin that transpiles TypeScript files one by one. Two variants of it are
  embedded: \<^verbatim>\<open>index.js\<close>, whose \<^verbatim>\<open>compile\<close> returns a promise and calls
  \<^verbatim>\<open>ts.transpileModule\<close> (definitions with the suffix \<open>_promise\<close>), and a second file,
  whose \<^verbatim>\<open>compile\<close> returns the result or throws and calls the module \<^verbatim>\<open>./transpile\<close>
  (suffix \<open>_throw\<close>). Functions with the same text in both files are embedded once.
\<close>

section \<open>JavaScript values\<close>

text \<open>
  The plugin is dynamically typed JavaScript. Values that come from the user's configuration
  or from \<^verbatim>\<open>tsconfig.json\<close> are modelled by \<open>jsval\<close>; an object is the list of its own
  enumerable properties in enumeration order, read with \<open>obj_get\<close> (first binding wins).
  \<open>JOther\<close> stands for a function or a regular expression (a matcher, a pattern), named by
  its source text; its insides are not represented.

  A number is a real number, an infinity or \<open>NaN\<close>. The plugin never computes with the
  numbers of the configuration: it only tests and returns them.
\<close>

datatype number = NaN | PosInfinity | NegInfinity | Num real

datatype jsval =
    JUndefined
  | JNull
  | JBool bool
  | JNum number
  | JStr string
  | JArr "jsval list"
  | JObj "(string \<times> jsval) list"
  | JOther string

text \<open>What a \<^verbatim>\<open>throw\<close> of the runtime or of a library carries.\<close>

datatype exn = TypeError | SyntaxError | Error string

text \<open>Sequencing of steps that may throw: the first exception ends the computation.\<close>

definition and_then :: "exn + 'a \<Rightarrow> ('a \<Rightarrow> exn + 'b) \<Rightarrow> exn + 'b" where
  "and_then m f = (case m of Inl e \<Rightarrow> Inl e | Inr x \<Rightarrow> f x)"

subsection \<open>The compiler's data, as the TypeScript API declares it\<close>

text \<open>
  A diagnostic has a numeric \<^verbatim>\<open>code\<close>, a \<^verbatim>\<open>messageText\<close>, a \<^verbatim>\<open>file\<close> or none and a
  \<^verbatim>\<open>start\<close> offset or none; the line map of a source file is an array of offsets, built on
  demand, or \<^verbatim>\<open>undefined\<close>. Codes and offsets are integers. The message text is taken to
  be a string, as it is in the diagnostics of a single-file transpilation (a message chain
  of the type checker is not modelled).
\<close>

record source_file =
  lineMap :: "int list option"

record diagnostic =
  code :: int
  messageText :: string
  file' :: "source_file option"
  start :: "int option"

record transpile_options =
  fileName :: string
  reportDiagnostics :: bool
  compilerOptions :: "(string \<times> jsval) list"

record transpile_output =
  outputText :: string
  diagnostics :: "diagnostic list"
  sourceMapText :: "string option"

subsection \<open>External collaborators\<close>

text \<open>
  Everything the plugin calls and does not define is a field of \<open>host\<close>: the transpile
  operation (\<^verbatim>\<open>ts.transpileModule\<close> in \<^verbatim>\<open>index.js\<close>, the module \<^verbatim>\<open>./transpile\<close> in the
  throw-based variant), \<^verbatim>\<open>anymatch\<close>, \<^verbatim>\<open>path.resolve\<close>, \<^verbatim>\<open>require\<close>, \<^verbatim>\<open>JSON\<close>, the
  compiler's enumerations, and three operations of the language that are left abstract:
  \<^verbatim>\<open>String.prototype.toUpperCase\<close>, the numeric value of a string, and the numeric value
  of an array, object, function or regular expression.
\<close>

record host =
  transpileModule :: "string \<Rightarrow> transpile_options \<Rightarrow> exn + transpile_output"
  anymatch :: "jsval \<Rightarrow> exn + (string \<Rightarrow> bool)"
  path_resolve :: "string \<Rightarrow> string \<Rightarrow> string"
  require :: "string \<Rightarrow> exn + jsval"
  JSON_parse :: "string \<Rightarrow> exn + jsval"
  JSON_stringify :: "jsval \<Rightarrow> string"
  ModuleKind :: "(string \<times> jsval) list"
  ScriptTarget :: "(string \<times> jsval) list"
  JsxEmit :: "(string \<times> jsval) list"
  toUpperCase :: "string \<Rightarrow> string"
  StringToNumber :: "string \<Rightarrow> number"
  ObjectToNumber :: "jsval \<Rightarrow> number"

subsection \<open>Operations of the language\<close>

text \<open>\<^verbatim>\<open>!!v\<close>.\<close>

fun truthy :: "jsval \<Rightarrow> bool" where
  "truthy JUndefined = False"
| "truthy JNull = False"
| "truthy (JBool b) = b"
| "truthy (JNum n) = (n \<noteq> NaN \<and> n \<noteq> Num 0)"
| "truthy (JStr s) = (s \<noteq> [])"
| "truthy (JArr xs) = True"
| "truthy (JObj kvs) = True"
| "truthy (JOther s) = True"

text \<open>The numeric value of a value, as \<^verbatim>\<open>isNaN(v)\<close> and \<^verbatim>\<open>v - 0\<close> compute it.\<close>

fun ToNumber :: "host \<Rightarrow> jsval \<Rightarrow> number" where
  "ToNumber h JUndefined = NaN"
| "ToNumber h JNull = Num 0"
| "ToNumber h (JBool b) = (if b then Num 1 else Num 0)"
| "ToNumber h (JNum n) = n"
| "ToNumber h (JStr s) = StringToNumber h s"
| "ToNumber h v = ObjectToNumber h v"

definition isNaN :: "host \<Rightarrow> jsval \<Rightarrow> bool" where
  "isNaN h v = (ToNumber h v = NaN)"

text \<open>\<^verbatim>\<open>Object.keys(o)\<close> and \<^verbatim>\<open>o[k]\<close> for an object given by its property list.\<close>

definition Object_keys :: "(string \<times> jsval) list \<Rightarrow> string list" where
  "Object_keys kvs = remdups (map fst kvs)"

definition obj_get :: "(string \<times> jsval) list \<Rightarrow> string \<Rightarrow> jsval" where
  "obj_get kvs k = (case map_of kvs k of None \<Rightarrow> JUndefined | Some v \<Rightarrow> v)"

text \<open>
  Reading a property of a value: a \<^verbatim>\<open>TypeError\<close> on \<^verbatim>\<open>undefined\<close> and \<^verbatim>\<open>null\<close>. None of
  the property names the plugin reads is inherited from a prototype, so any other value
  that is not an object with the property yields \<^verbatim>\<open>undefined\<close>.
\<close>

fun property :: "jsval \<Rightarrow> string \<Rightarrow> exn + jsval" where
  "property JUndefined k = Inl TypeError"
| "property JNull k = Inl TypeError"
| "property (JObj kvs) k = Inr (obj_get kvs k)"
| "property v k = Inr JUndefined"

text \<open>Decimal notation of an integer, as a template literal prints it.\<close>

definition digit :: "nat \<Rightarrow> char" where
  "digit d = ''0123456789'' ! d"

fun nat_to_string :: "nat \<Rightarrow> string" where
  "nat_to_string n =
     (if n < 10 then [digit n] else nat_to_string (n div 10) @ [digit (n mod 10)])"

declare nat_to_string.simps [simp del]

definition int_to_string :: "int \<Rightarrow> string" where
  "int_to_string i = (if i < 0 then CHR ''-'' # nat_to_string (nat (- i)) else nat_to_string (nat i))"

text \<open>A number that is an integer or \<^verbatim>\<open>NaN\<close> (\<open>None\<close>), as the column arithmetic yields it.\<close>

definition num_to_string :: "int option \<Rightarrow> string" where
  "num_to_string x = (case x of None \<Rightarrow> ''NaN'' | Some i \<Rightarrow> int_to_string i)"

definition newline :: string where
  "newline = [CHR 0x0A]"

text \<open>\<^verbatim>\<open>Array.prototype.join\<close> on strings.\<close>

fun join :: "string list \<Rightarrow> string \<Rightarrow> string" where
  "join [] sep = []"
| "join [x] sep = x"
| "join (x # y # ys) sep = x @ sep @ join (y # ys) sep"

section \<open>The module-level functions of the plugin\<close>

definition ignoredErrors :: "int set" where
  "ignoredErrors = {1208, 2307, 2304, 2322, 2339}"

text \<open>
  \<^verbatim>\<open>resolveEnum\<close> (the same in both variants). A choice that is not a string and has no
  numeric value has no \<^verbatim>\<open>toUpperCase\<close> method: the call in the first round of the loop
  throws a \<^verbatim>\<open>TypeError\<close>; with no key the loop body never runs.
\<close>

definition defaultValue :: jsval where
  "defaultValue = JNum (Num 1)"

fun resolveEnum_loop :: "host \<Rightarrow> string \<Rightarrow> (string \<times> jsval) list \<Rightarrow> string list \<Rightarrow> jsval" where
  "resolveEnum_loop h choice opts [] = defaultValue"
| "resolveEnum_loop h choice opts (opt # rest) =
     (if toUpperCase h choice = toUpperCase h opt then obj_get opts opt
      else resolveEnum_loop h choice opts rest)"

definition resolveEnum :: "host \<Rightarrow> jsval \<Rightarrow> (string \<times> jsval) list \<Rightarrow> exn + jsval" where
  "resolveEnum h choice opts =
     (if \<not> truthy choice then Inr defaultValue
      else if \<not> isNaN h choice then Inr (JNum (ToNumber h choice))
      else (case choice of
              JStr s \<Rightarrow> Inr (resolveEnum_loop h s opts (Object_keys opts))
            | _ \<Rightarrow> if Object_keys opts = [] then Inr defaultValue else Inl TypeError))"

text \<open>
  \<^verbatim>\<open>findLessOrEqual\<close>: the needle is \<^verbatim>\<open>err.start\<close>, a number or \<^verbatim>\<open>undefined\<close>; a comparison
  with \<^verbatim>\<open>undefined\<close> is false.
\<close>

definition ge :: "int option \<Rightarrow> int \<Rightarrow> bool" where
  "ge needle x = (case needle of None \<Rightarrow> False | Some n \<Rightarrow> n \<ge> x)"

function findLessOrEqual_loop :: "int list \<Rightarrow> int option \<Rightarrow> nat \<Rightarrow> nat" where
  "findLessOrEqual_loop haystack needle i =
     (if i + 1 < length haystack \<and> ge needle (haystack ! (i + 1))
      then findLessOrEqual_loop haystack needle (i + 1)
      else i)"
  by pat_completeness auto
termination
  by (relation "measure (\<lambda>(haystack, needle, i). length haystack - i)") auto

declare findLessOrEqual_loop.simps [simp del]

definition findLessOrEqual :: "int list \<Rightarrow> int option \<Rightarrow> int" where
  "findLessOrEqual haystack needle =
     (let i = findLessOrEqual_loop haystack needle 0
      in if i = length haystack then - 1 else int i)"

text \<open>
  \<^verbatim>\<open>err.start - err.file.lineMap[lineIndex] + 1\<close>: \<^verbatim>\<open>NaN\<close> when the offset is \<^verbatim>\<open>undefined\<close> or
  the index is outside the array (the index is \<open>-1\<close> for an empty line map).
\<close>

definition column :: "int option \<Rightarrow> int list \<Rightarrow> int \<Rightarrow> int option" where
  "column st lm lineIndex =
     (case st of
        None \<Rightarrow> None
      | Some s \<Rightarrow>
          if 0 \<le> lineIndex \<and> nat lineIndex < length lm
          then Some (s - lm ! nat lineIndex + 1) else None)"

definition errPos :: "diagnostic \<Rightarrow> string" where
  "errPos err =
     (case file' err of
        None \<Rightarrow> ''No line map''
      | Some f \<Rightarrow>
          (case lineMap f of
             None \<Rightarrow> ''No line map''
           | Some lm \<Rightarrow>
               (let lineIndex = findLessOrEqual lm (start err)
                in ''Line: '' @ int_to_string (lineIndex + 1) @ '', Col: ''
                   @ num_to_string (column (start err) lm lineIndex))))"

definition toMeaningfulMessage :: "diagnostic \<Rightarrow> string" where
  "toMeaningfulMessage err =
     ''Error '' @ int_to_string (code err) @ '': '' @ messageText err
       @ '' ('' @ errPos err @ '')''"

text \<open>
  \<^verbatim>\<open>getTsconfig\<close> of \<^verbatim>\<open>index.js\<close>. Its argument is \<^verbatim>\<open>config.paths && config.paths.root\<close>, a
  string or \<^verbatim>\<open>undefined\<close>. The \<^verbatim>\<open>try\<close> covers \<^verbatim>\<open>require\<close> and the read of
  \<^verbatim>\<open>compilerOptions\<close>.
\<close>

definition getTsconfig :: "host \<Rightarrow> string option \<Rightarrow> jsval" where
  "getTsconfig h configRoot =
     (case configRoot of
        None \<Rightarrow> JObj []
      | Some r \<Rightarrow>
          if r = [] then JObj []
          else (case and_then (require h (path_resolve h r ''tsconfig.json''))
                       (\<lambda>m. property m ''compilerOptions'') of
                  Inl e \<Rightarrow> JObj []
                | Inr v \<Rightarrow> v))"

section \<open>The configuration and the adapter\<close>

text \<open>
  The configuration object of the build tool, with every part the constructors read;
  \<open>None\<close> is a property that is \<^verbatim>\<open>undefined\<close>. The values of the plugin options stay
  dynamically typed.
\<close>

record plugins_config =
  typescript :: "(string \<times> jsval) list option"
  brunchTypescript :: "(string \<times> jsval) list option"

record paths_config =
  root' :: "string option"

record conventions_config =
  vendor :: jsval

record config =
  plugins :: "plugins_config option"
  paths :: "paths_config option"
  sourceMaps :: jsval
  conventions :: "conventions_config option"

text \<open>
  \<^verbatim>\<open>getTSconfig\<close> of the throw-based variant takes the whole configuration and reads
  \<^verbatim>\<open>config.paths.root\<close> outside the \<^verbatim>\<open>try\<close>: a \<^verbatim>\<open>TypeError\<close> when \<^verbatim>\<open>config.paths\<close> is
  \<^verbatim>\<open>undefined\<close>, and \<^verbatim>\<open>path.resolve\<close> of Node throws a \<^verbatim>\<open>TypeError\<close> on an argument that is
  not a string.
\<close>

definition getTSconfig :: "host \<Rightarrow> config \<Rightarrow> exn + jsval" where
  "getTSconfig h config =
     (case paths config of
        None \<Rightarrow> Inl TypeError
      | Some p \<Rightarrow>
          (case root' p of
             None \<Rightarrow> Inl TypeError
           | Some r \<Rightarrow>
               (case and_then (require h (path_resolve h r ''tsconfig.json''))
                       (\<lambda>m. property m ''compilerOptions'') of
                  Inl e \<Rightarrow> Inr (JObj [])
                | Inr v \<Rightarrow> Inr v)))"

text \<open>
  The instance. \<open>pattern\<close>, \<open>ignoreAllErrors\<close> and \<open>ignoreErrors\<close> are own properties that
  the constructor sets only in some branches: \<open>None\<close> (\<open>False\<close> for the flag, which is only
  ever set to \<^verbatim>\<open>true\<close>) is the property left unset, and an unset \<open>pattern\<close> is the
  prototype's \<^verbatim>\<open>/\.tsx?$/\<close>. \<open>targetExtension\<close> exists in the throw-based variant only.
\<close>

record adapter =
  options :: "(string \<times> jsval) list"
  isIgnored :: "string \<Rightarrow> bool"
  pattern :: "jsval option"
  ignoreAllErrors :: bool
  ignoreErrors :: "jsval set option"
  targetExtension :: "string option"

text \<open>
  \<^verbatim>\<open>this.options\<close> is what \<^verbatim>\<open>getTsconfig\<close> returned, and the constructor writes properties
  to it. Both files are in strict mode: a write to a property of \<^verbatim>\<open>undefined\<close>, \<^verbatim>\<open>null\<close> or
  of a primitive value throws a \<^verbatim>\<open>TypeError\<close> (at the latest at
  \<^verbatim>\<open>this.options.module = ...\<close>, and nothing before it throws anything else). An array
  takes named properties beside its elements; a function or a regular expression takes
  them too and has no enumerable property of its own.
\<close>

fun writable_object :: "jsval \<Rightarrow> exn + (string \<times> jsval) list" where
  "writable_object (JObj kvs) = Inr kvs"
| "writable_object (JArr xs) = Inr (zip (map nat_to_string [0..<length xs]) xs)"
| "writable_object (JOther s) = Inr []"
| "writable_object v = Inl TypeError"

text \<open>The \<^verbatim>\<open>forEach\<close> that copies the plugin options over the loaded ones.\<close>

definition overlay :: "(string \<times> jsval) list \<Rightarrow> (string \<times> jsval) list \<Rightarrow> (string \<times> jsval) list" where
  "overlay plugin_options this_options =
     fold (\<lambda>key acc.
             if key = ''sourceMap'' \<or> key = ''ignore'' then acc
             else AList.update key (obj_get plugin_options key) acc)
          (Object_keys plugin_options) this_options"

text \<open>From \<^verbatim>\<open>this.options.module = ...\<close> to \<^verbatim>\<open>delete this.options.moduleResolution\<close>.\<close>

definition normalize :: "host \<Rightarrow> (string \<times> jsval) list \<Rightarrow> exn + (string \<times> jsval) list" where
  "normalize h opts0 =
     and_then (resolveEnum h (obj_get opts0 ''module'') (ModuleKind h)) (\<lambda>m.
       let opts1 = AList.update ''module'' m opts0 in
     and_then (resolveEnum h (obj_get opts1 ''target'') (ScriptTarget h)) (\<lambda>t.
       let opts2 = AList.update ''target'' t opts1 in
     and_then (resolveEnum h (obj_get opts2 ''jsx'') (JsxEmit h)) (\<lambda>j.
       let opts3 = AList.update ''jsx'' j opts2;
           opts4 = AList.update ''emitDecoratorMetadata''
                     (JBool (obj_get opts3 ''emitDecoratorMetadata'' \<noteq> JBool False)) opts3;
           opts5 = AList.update ''experimentalDecorators''
                     (JBool (obj_get opts4 ''experimentalDecorators'' \<noteq> JBool False)) opts4;
           opts6 = AList.update ''noEmitOnError'' (JBool False) opts5
       in Inr (AList.delete ''moduleResolution'' opts6))))"

text \<open>\<^verbatim>\<open>anymatch(options.ignore || config.conventions.vendor)\<close>.\<close>

definition make_isIgnored ::
  "host \<Rightarrow> (string \<times> jsval) list \<Rightarrow> config \<Rightarrow> exn + (string \<Rightarrow> bool)" where
  "make_isIgnored h plugin_options config =
     (if truthy (obj_get plugin_options ''ignore'')
      then anymatch h (obj_get plugin_options ''ignore'')
      else (case conventions config of
              None \<Rightarrow> Inl TypeError
            | Some c \<Rightarrow> anymatch h (vendor c)))"

text \<open>
  \<^verbatim>\<open>new Set(v)\<close>: the elements of an array, the characters of a string; any other value
  is not iterable.
\<close>

fun new_Set :: "jsval \<Rightarrow> exn + jsval set" where
  "new_Set (JArr xs) = Inr (set xs)"
| "new_Set (JStr s) = Inr (set (map (\<lambda>c. JStr [c]) s))"
| "new_Set v = Inl TypeError"

text \<open>
  From \<^verbatim>\<open>this.options.sourceMap = !!config.sourceMaps\<close> to the end of the constructor,
  the same text in both variants.
\<close>

definition finish_construction ::
  "host \<Rightarrow> config \<Rightarrow> (string \<times> jsval) list \<Rightarrow> string option \<Rightarrow> (string \<times> jsval) list
     \<Rightarrow> exn + adapter" where
  "finish_construction h config plugin_options ext opts0 =
     (let opts1 = AList.update ''sourceMap'' (JBool (truthy (sourceMaps config))) opts0 in
      and_then (make_isIgnored h plugin_options config) (\<lambda>ignored.
        let p = obj_get opts1 ''pattern'';
            opts2 = (if truthy p then AList.delete ''pattern'' opts1 else opts1);
            this = \<lparr>options = opts2, isIgnored = ignored,
                    pattern = (if truthy p then Some p else None),
                    ignoreAllErrors = False, ignoreErrors = None, targetExtension = ext\<rparr>;
            ie = obj_get opts2 ''ignoreErrors''
        in if truthy ie
           then (if ie = JBool True
                 then Inr (this\<lparr>ignoreAllErrors := True,
                                options := AList.delete ''ignoreErrors'' opts2\<rparr>)
                 else and_then (new_Set ie) (\<lambda>s.
                        Inr (this\<lparr>ignoreErrors := Some s,
                                  options := AList.delete ''ignoreErrors'' opts2\<rparr>)))
           else Inr this))"

text \<open>
  The constructor of \<^verbatim>\<open>index.js\<close>. The argument is \<open>None\<close> when it is omitted; a missing
  configuration is replaced by \<^verbatim>\<open>{}\<close>, whose every property is \<^verbatim>\<open>undefined\<close>.
\<close>

definition empty_config :: config where
  "empty_config = \<lparr>plugins = None, paths = None, sourceMaps = JUndefined, conventions = None\<rparr>"

text \<open>\<^verbatim>\<open>config.plugins && config.plugins.brunchTypescript || {}\<close>.\<close>

definition options_promise :: "config \<Rightarrow> (string \<times> jsval) list" where
  "options_promise config =
     (case plugins config of
        None \<Rightarrow> []
      | Some p \<Rightarrow> (case brunchTypescript p of None \<Rightarrow> [] | Some opts \<Rightarrow> opts))"

text \<open>The constructor from the \<^verbatim>\<open>forEach\<close> on, with \<^verbatim>\<open>this.options\<close> as loaded.\<close>

definition construct_promise :: "host \<Rightarrow> config \<Rightarrow> jsval \<Rightarrow> exn + adapter" where
  "construct_promise h config loaded =
     and_then (writable_object loaded) (\<lambda>this_options.
     and_then (normalize h (overlay (options_promise config) this_options)) (\<lambda>opts.
       finish_construction h config (options_promise config) None opts))"

definition constructor_promise :: "host \<Rightarrow> config option \<Rightarrow> exn + adapter" where
  "constructor_promise h arg =
     (let config = (case arg of None \<Rightarrow> empty_config | Some c \<Rightarrow> c)
      in construct_promise h config
           (getTsconfig h (case paths config of None \<Rightarrow> None | Some p \<Rightarrow> root' p)))"

text \<open>
  The constructor of the throw-based variant: no default for a missing argument, the
  plugin options also under the key \<^verbatim>\<open>typescript\<close> (an object is truthy, so it wins when
  present), and \<^verbatim>\<open>targetExtension\<close> taken from the \<^verbatim>\<open>jsx\<close> option before it is resolved.
\<close>

definition options_throw :: "plugins_config \<Rightarrow> (string \<times> jsval) list" where
  "options_throw p =
     (case typescript p of
        Some opts \<Rightarrow> opts
      | None \<Rightarrow> (case brunchTypescript p of None \<Rightarrow> [] | Some opts \<Rightarrow> opts))"

definition construct_throw :: "host \<Rightarrow> config \<Rightarrow> plugins_config \<Rightarrow> jsval \<Rightarrow> exn + adapter" where
  "construct_throw h config p loaded =
     and_then (writable_object loaded) (\<lambda>this_options.
       let opts0 = overlay (options_throw p) this_options;
           ext = (if obj_get opts0 ''jsx'' = JStr ''preserve'' then ''jsx'' else ''js'')
       in and_then (normalize h opts0) (\<lambda>opts.
            finish_construction h config (options_throw p) (Some ext) opts))"

definition constructor_throw :: "host \<Rightarrow> config option \<Rightarrow> exn + adapter" where
  "constructor_throw h arg =
     (case arg of
        None \<Rightarrow> Inl TypeError
      | Some config \<Rightarrow>
          (case plugins config of
             None \<Rightarrow> Inl TypeError
           | Some p \<Rightarrow> and_then (getTSconfig h config) (construct_throw h config p)))"

section \<open>compile\<close>

text \<open>
  The file handed to \<^verbatim>\<open>compile\<close> (\<^verbatim>\<open>params\<close>, \<^verbatim>\<open>file\<close>) and the object built on success
  (\<^verbatim>\<open>result\<close>, with \<^verbatim>\<open>map\<close> set only when a source map came back).
\<close>

record params =
  path :: string
  data :: string

record result =
  data' :: string
  map' :: "string option"

text \<open>
  What a call delivers is the \<^verbatim>\<open>params\<close> object itself or a fresh \<^verbatim>\<open>result\<close>; what it
  fails with is the joined diagnostic string or an exception.
\<close>

datatype delivered = Params params | Result result

datatype reason = Message string | Exception exn

datatype promise = Resolve delivered | Reject reason

datatype completion = Return delivered | Throw reason

text \<open>
  A call is observed through the instance it leaves behind, the calls of the transpile
  operation it made (source text and options, in order) and its outcome.
\<close>

record 'o run =
  state :: adapter
  calls :: "(string \<times> transpile_options) list"
  outcome :: 'o

text \<open>
  \<^verbatim>\<open>rawMap.sources[0] = path\<close> after \<^verbatim>\<open>JSON.parse\<close>: the read of \<^verbatim>\<open>sources\<close>, then the write
  of its element \<open>0\<close> (strict mode: a \<^verbatim>\<open>TypeError\<close> on a primitive value).
\<close>

fun set_first :: "jsval \<Rightarrow> jsval \<Rightarrow> exn + jsval" where
  "set_first (JArr xs) v = Inr (JArr (case xs of [] \<Rightarrow> [v] | x # rest \<Rightarrow> v # rest))"
| "set_first (JObj kvs) v = Inr (JObj (AList.update ''0'' v kvs))"
| "set_first (JOther s) v = Inr (JOther s)"
| "set_first w v = Inl TypeError"

definition set_sources :: "jsval \<Rightarrow> string \<Rightarrow> exn + jsval" where
  "set_sources rawMap p =
     and_then (property rawMap ''sources'') (\<lambda>sources.
     and_then (set_first sources (JStr p)) (\<lambda>sources'.
       case rawMap of
         JObj kvs \<Rightarrow> Inr (JObj (AList.update ''sources'' sources' kvs))
       | _ \<Rightarrow> Inr rawMap))"

text \<open>
  From \<^verbatim>\<open>const result = ...\<close> to the source map, the same text in both variants.
  \<^verbatim>\<open>compiled.outputText || compiled\<close> falls back to the object itself when the emitted
  text is the empty string, and the template literal prints an object as
  \<^verbatim>\<open>[object Object]\<close>.
\<close>

definition make_result :: "host \<Rightarrow> string \<Rightarrow> transpile_output \<Rightarrow> exn + result" where
  "make_result h p compiled =
     (let result =
            \<lparr>data' = (if outputText compiled \<noteq> [] then outputText compiled
                      else ''[object Object]'') @ newline,
             map' = None\<rparr>
      in case sourceMapText compiled of
           None \<Rightarrow> Inr result
         | Some text \<Rightarrow>
             if text = [] then Inr result
             else and_then (JSON_parse h text) (\<lambda>rawMap.
                  and_then (set_sources rawMap p) (\<lambda>patched.
                    Inr (result\<lparr>map' := Some (JSON_stringify h patched)\<rparr>))))"

text \<open>\<^verbatim>\<open>this.ignoreErrors.has(err.code)\<close>.\<close>

definition has :: "jsval set \<Rightarrow> int \<Rightarrow> bool" where
  "has s c = (JNum (Num (of_int c)) \<in> s)"

text \<open>
  The adapter's own filter, the same in both variants: \<^verbatim>\<open>ignoreAllErrors\<close> empties the
  list, otherwise \<^verbatim>\<open>ignoreErrors\<close>, when set, removes its codes.
\<close>

definition own_filter :: "adapter \<Rightarrow> diagnostic list \<Rightarrow> diagnostic list" where
  "own_filter this diag =
     (if ignoreAllErrors this then []
      else (case ignoreErrors this of
              Some s \<Rightarrow> filter (\<lambda>err. \<not> has s (code err)) diag
            | None \<Rightarrow> diag))"

definition tsOptions :: "adapter \<Rightarrow> params \<Rightarrow> transpile_options" where
  "tsOptions this file =
     \<lparr>fileName = path file, reportDiagnostics = True, compilerOptions = options this\<rparr>"

text \<open>
  \<^verbatim>\<open>compile\<close> of \<^verbatim>\<open>index.js\<close>. A promise settles once: after \<^verbatim>\<open>reject\<close> with the joined
  messages, the rest of the executor runs without effect on the outcome. An exception of
  the transpile operation is caught and rejected with; one thrown later in the executor
  rejects the promise as well.
\<close>

definition compile_promise :: "host \<Rightarrow> adapter \<Rightarrow> params \<Rightarrow> promise run" where
  "compile_promise h this file =
     (if isIgnored this (path file)
      then \<lparr>state = this, calls = [], outcome = Resolve (Params file)\<rparr>
      else
        \<lparr>state = this,
         calls = [(data file, tsOptions this file)],
         outcome =
           (case transpileModule h (data file) (tsOptions this file) of
              Inl err \<Rightarrow> Reject (Exception err)
            | Inr compiled \<Rightarrow>
                (let reportable =
                       own_filter this
                         (filter (\<lambda>err. code err \<notin> ignoredErrors) (diagnostics compiled))
                 in if reportable \<noteq> []
                    then Reject (Message (join (map toMeaningfulMessage reportable) newline))
                    else (case make_result h (path file) compiled of
                            Inl err \<Rightarrow> Reject (Exception err)
                          | Inr result \<Rightarrow> Resolve (Result result))))\<rparr>)"

text \<open>
  \<^verbatim>\<open>compile\<close> of the throw-based variant: the diagnostics that its transpile module returns
  go through the adapter's own filter only.
\<close>

definition compile_throw :: "host \<Rightarrow> adapter \<Rightarrow> params \<Rightarrow> completion run" where
  "compile_throw h this file =
     (if isIgnored this (path file)
      then \<lparr>state = this, calls = [], outcome = Return (Params file)\<rparr>
      else
        \<lparr>state = this,
         calls = [(data file, tsOptions this file)],
         outcome =
           (case transpileModule h (data file) (tsOptions this file) of
              Inl err \<Rightarrow> Throw (Exception err)
            | Inr compiled \<Rightarrow>
                (let diag = own_filter this (diagnostics compiled)
                 in if diag \<noteq> []
                    then Throw (Message (join (map toMeaningfulMessage diag) newline))
                    else (case make_result h (path file) compiled of
                            Inl err \<Rightarrow> Throw (Exception err)
                          | Inr result \<Rightarrow> Return (Result result))))\<rparr>)"

text \<open>The promise a caller gets by wrapping a direct call: the calling convention.\<close>

fun settle :: "completion \<Rightarrow> promise" where
  "settle (Return v) = Resolve v"
| "settle (Throw r) = Reject r"

subsection \<open>The module ./transpile\<close>

text \<open>
  A transpile answer without its diagnostics of the fixed ignore-set: the first filter of
  \<^verbatim>\<open>compile\<close> in \<^verbatim>\<open>index.js\<close>, applied to the answer.
\<close>

definition without_ignored :: "transpile_output \<Rightarrow> transpile_output" where
  "without_ignored compiled =
     compiled\<lparr>diagnostics := filter (\<lambda>err. code err \<notin> ignoredErrors) (diagnostics compiled)\<rparr>"

text \<open>
  Modelled from the spec: the module \<^verbatim>\<open>./transpile\<close>, which the throw-based variant requires
  and calls in \<^verbatim>\<open>compile\<close>, is not among the sources. The spec has \<^verbatim>\<open>compile\<close> invoke the
  external single-file transpile operation and then remove from the returned diagnostics
  those whose code is in the fixed ignore-set, before the adapter's own filter. The
  \<^verbatim>\<open>compile\<close> of the throw-based variant applies the adapter's own filter only, so the
  module is the external operation followed by that removal; it writes nothing.
\<close>

definition transpile :: "host \<Rightarrow> string \<Rightarrow> transpile_options \<Rightarrow> exn + transpile_output" where
  "transpile h input opts = map_sum id without_ignored (transpileModule h input opts)"

text \<open>
  Modelled from the spec: the host of the throw-based variant, whose \<^verbatim>\<open>compile\<close> calls the
  module \<^verbatim>\<open>./transpile\<close> (not among the sources), built on the external operation of \<open>h\<close>.
\<close>

definition filtering_host :: "host \<Rightarrow> host" where
  "filtering_host h = h\<lparr>transpileModule := transpile h\<rparr>"

section \<open>compile on a store\<close>

text \<open>
  Above, the instance and its options are values, and the transpile operation is a function
  of the values it is handed. \<^verbatim>\<open>compile\<close> hands it \<^verbatim>\<open>this.options\<close> by reference, inside
  the fresh object \<^verbatim>\<open>tsOptions\<close>, and it writes to objects of its own (\<^verbatim>\<open>result\<close>, the parsed
  source map). To see what a call does to the instance, the objects are put in a store:
  a cell holds a plain value, or the \<^verbatim>\<open>tsOptions\<close> object with its reference to the options;
  addresses are handed out in order. The transpile operation takes the source text, the
  address of \<^verbatim>\<open>tsOptions\<close> and the store, and returns its answer and the store it leaves.
\<close>

type_synonym addr = nat

datatype cell = Plain jsval | TsOptions string bool addr

record store =
  fresh :: addr
  cells :: "addr \<Rightarrow> cell option"

definition alloc :: "cell \<Rightarrow> store \<Rightarrow> addr \<times> store" where
  "alloc c s = (fresh s, s\<lparr>fresh := Suc (fresh s), cells := (cells s)(fresh s := Some c)\<rparr>)"

definition overwrite :: "addr \<Rightarrow> cell \<Rightarrow> store \<Rightarrow> store" where
  "overwrite a c s = s\<lparr>cells := (cells s)(a := Some c)\<rparr>"

type_synonym transpile_op = "string \<Rightarrow> addr \<Rightarrow> store \<Rightarrow> (exn + transpile_output) \<times> store"

text \<open>
  The instance with \<^verbatim>\<open>this.options\<close> as a reference. Its other properties are set by the
  constructor and no reference to them leaves the instance.
\<close>

record this_ref =
  its_options :: addr
  its_isIgnored :: "string \<Rightarrow> bool"
  its_pattern :: "jsval option"
  its_ignoreAllErrors :: bool
  its_ignoreErrors :: "jsval set option"
  its_targetExtension :: "string option"

definition options_of :: "store \<Rightarrow> addr \<Rightarrow> (string \<times> jsval) list" where
  "options_of s a = (case cells s a of Some (Plain (JObj kvs)) \<Rightarrow> kvs | _ \<Rightarrow> [])"

text \<open>The adapter state that the instance has in a store.\<close>

definition the_adapter :: "this_ref \<Rightarrow> store \<Rightarrow> adapter" where
  "the_adapter this s =
     \<lparr>options = options_of s (its_options this),
      isIgnored = its_isIgnored this,
      pattern = its_pattern this,
      ignoreAllErrors = its_ignoreAllErrors this,
      ignoreErrors = its_ignoreErrors this,
      targetExtension = its_targetExtension this\<rparr>"

text \<open>What the transpile operation is handed at an address: \<^verbatim>\<open>tsOptions\<close> read through.\<close>

definition handed :: "store \<Rightarrow> addr \<Rightarrow> transpile_options option" where
  "handed s a =
     (case cells s a of
        Some (TsOptions f r opts) \<Rightarrow>
          Some \<lparr>fileName = f, reportDiagnostics = r, compilerOptions = options_of s opts\<rparr>
      | _ \<Rightarrow> None)"

text \<open>
  The rest of \<^verbatim>\<open>compile\<close> after the diagnostics, as \<open>make_result\<close>, with its objects in the
  store: \<^verbatim>\<open>result\<close>, the value built by \<^verbatim>\<open>JSON.parse\<close>, the write of \<^verbatim>\<open>sources[0]\<close> to it
  and the write of \<^verbatim>\<open>result.map\<close>.
\<close>

definition make_result_at :: "host \<Rightarrow> string \<Rightarrow> transpile_output \<Rightarrow> store \<Rightarrow> (exn + result) \<times> store" where
  "make_result_at h p compiled s =
     (let emitted = (if outputText compiled \<noteq> [] then outputText compiled
                  else ''[object Object]'') @ newline;
          (r, s1) = alloc (Plain (JObj [(''data'', JStr emitted)])) s
      in case sourceMapText compiled of
           None \<Rightarrow> (Inr \<lparr>data' = emitted, map' = None\<rparr>, s1)
         | Some mapText \<Rightarrow>
             if mapText = [] then (Inr \<lparr>data' = emitted, map' = None\<rparr>, s1)
             else (case JSON_parse h mapText of
                     Inl err \<Rightarrow> (Inl err, s1)
                   | Inr rawMap \<Rightarrow>
                       (let (m, s2) = alloc (Plain rawMap) s1
                        in case set_sources rawMap p of
                             Inl err \<Rightarrow> (Inl err, s2)
                           | Inr patched \<Rightarrow>
                               (let s3 = overwrite m (Plain patched) s2;
                                    serialized = JSON_stringify h patched;
                                    s4 = overwrite r (Plain (JObj [(''data'', JStr emitted),
                                                               (''map'', JStr serialized)])) s3
                                in (Inr \<lparr>data' = emitted, map' = Some serialized\<rparr>, s4)))))"

text \<open>
  \<^verbatim>\<open>compile\<close> of \<^verbatim>\<open>index.js\<close> on a store. The executor goes on after \<^verbatim>\<open>reject\<close>, so the
  result is built also when diagnostics remain.
\<close>

definition compile_promise_at ::
  "host \<Rightarrow> transpile_op \<Rightarrow> this_ref \<Rightarrow> params \<Rightarrow> store \<Rightarrow> promise \<times> store" where
  "compile_promise_at h t this file s =
     (if its_isIgnored this (path file) then (Resolve (Params file), s)
      else
        (let (a, s1) = alloc (TsOptions (path file) True (its_options this)) s;
             (answer, s2) = t (data file) a s1
         in case answer of
              Inl err \<Rightarrow> (Reject (Exception err), s2)
            | Inr compiled \<Rightarrow>
                (let reportable =
                       own_filter (the_adapter this s2)
                         (filter (\<lambda>err. code err \<notin> ignoredErrors) (diagnostics compiled));
                     (made, s3) = make_result_at h (path file) compiled s2
                 in (if reportable \<noteq> []
                     then Reject (Message (join (map toMeaningfulMessage reportable) newline))
                     else (case made of
                             Inl err \<Rightarrow> Reject (Exception err)
                           | Inr result \<Rightarrow> Resolve (Result result)),
                     s3))))"

text \<open>
  \<^verbatim>\<open>compile\<close> of the throw-based variant on a store, calling the module \<open>m\<close>; the
  \<^verbatim>\<open>throw\<close> ends the call before the result is built.
\<close>

definition compile_throw_at ::
  "host \<Rightarrow> transpile_op \<Rightarrow> this_ref \<Rightarrow> params \<Rightarrow> store \<Rightarrow> completion \<times> store" where
  "compile_throw_at h m this file s =
     (if its_isIgnored this (path file) then (Return (Params file), s)
      else
        (let (a, s1) = alloc (TsOptions (path file) True (its_options this)) s;
             (answer, s2) = m (data file) a s1
         in case answer of
              Inl err \<Rightarrow> (Throw (Exception err), s2)
            | Inr compiled \<Rightarrow>
                (let diag = own_filter (the_adapter this s2) (diagnostics compiled)
                 in if diag \<noteq> []
                    then (Throw (Message (join (map toMeaningfulMessage diag) newline)), s2)
                    else (let (made, s3) = make_result_at h (path file) compiled s2
                          in (case made of
                                Inl err \<Rightarrow> Throw (Exception err)
                              | Inr result \<Rightarrow> Return (Result result),
                              s3)))))"

text \<open>
  Modelled from the spec: the module \<^verbatim>\<open>./transpile\<close> (not among the sources) on a store, as
  \<open>transpile\<close> above: the external operation, then the removal of the fixed set from
  the diagnostics of its answer; the module itself writes to no object.
\<close>

definition transpile_at :: "transpile_op \<Rightarrow> transpile_op" where
  "transpile_at t input a s =
     (case t input a s of (answer, s') \<Rightarrow> (map_sum id without_ignored answer, s'))"

text \<open>
  A store \<open>s'\<close> is a \<open>frame\<close> of \<open>s\<close> when every object of \<open>s\<close> is in \<open>s'\<close> as it
  was: nothing that existed is written. The contract of the external transpile operation,
  which copies the options it is handed: it allocates, and it leaves every object that
  existed as it was (\<open>keeps\<close>); its answer is decided by the source text and by what it
  is handed (\<open>by_content\<close>). The operation of a host \<open>h\<close>, read through, is such an
  operation.
\<close>

definition frame :: "store \<Rightarrow> store \<Rightarrow> bool" where
  "frame s s' = (fresh s \<le> fresh s' \<and> (\<forall>x<fresh s. cells s' x = cells s x))"

definition keeps :: "transpile_op \<Rightarrow> bool" where
  "keeps t = (\<forall>input a s. frame s (snd (t input a s)))"

definition by_content :: "transpile_op \<Rightarrow> bool" where
  "by_content t =
     (\<forall>input a s a' s'. handed s a = handed s' a' \<longrightarrow> fst (t input a s) = fst (t input a' s'))"

definition by_value :: "host \<Rightarrow> transpile_op" where
  "by_value h input a s =
     (case handed s a of
        Some opts \<Rightarrow> (transpileModule h input opts, s)
      | None \<Rightarrow> (Inl TypeError, s))"

section \<open>A sample host and sample inputs\<close>

text \<open>
  A concrete host on which the definitions can be run. Its transpile operation answers
  every call with the given value; its \<^verbatim>\<open>anymatch\<close> takes a path or a list of paths and
  matches them literally; \<^verbatim>\<open>toUpperCase\<close> is the one of ASCII; a string has a numeric
  value when it is a non-empty run of decimal digits; the enumerations are those of
  TypeScript 2, numeric keys first as \<^verbatim>\<open>Object.keys\<close> lists them; the only
  \<^verbatim>\<open>tsconfig.json\<close> is the one of \<^verbatim>\<open>/app\<close>; \<^verbatim>\<open>JSON\<close> knows the empty object only (no
  sample input carries a source map).
\<close>

definition ascii_upper :: "char \<Rightarrow> char" where
  "ascii_upper c =
     (case map_of (zip ''abcdefghijklmnopqrstuvwxyz'' ''ABCDEFGHIJKLMNOPQRSTUVWXYZ'') c of
        None \<Rightarrow> c
      | Some u \<Rightarrow> u)"

definition digit_value :: "char \<Rightarrow> nat option" where
  "digit_value c = map_of (zip ''0123456789'' [0, 1, 2, 3, 4, 5, 6, 7, 8, 9]) c"

definition decimal :: "string \<Rightarrow> number" where
  "decimal s =
     (if s \<noteq> [] \<and> list_all (\<lambda>c. digit_value c \<noteq> None) s
      then Num (of_nat (foldl (\<lambda>acc c. 10 * acc + the (digit_value c)) 0 s))
      else NaN)"

definition literal_matcher :: "jsval \<Rightarrow> string \<Rightarrow> bool" where
  "literal_matcher v p =
     (case v of JStr s \<Rightarrow> p = s | JArr xs \<Rightarrow> JStr p \<in> set xs | _ \<Rightarrow> False)"

definition enum_ModuleKind :: "(string \<times> jsval) list" where
  "enum_ModuleKind =
     [(''0'', JStr ''None''), (''1'', JStr ''CommonJS''), (''2'', JStr ''AMD''),
      (''3'', JStr ''UMD''), (''4'', JStr ''System''), (''5'', JStr ''ES2015''),
      (''6'', JStr ''ESNext''),
      (''None'', JNum (Num 0)), (''CommonJS'', JNum (Num 1)), (''AMD'', JNum (Num 2)),
      (''UMD'', JNum (Num 3)), (''System'', JNum (Num 4)), (''ES2015'', JNum (Num 5)),
      (''ESNext'', JNum (Num 6))]"

definition enum_ScriptTarget :: "(string \<times> jsval) list" where
  "enum_ScriptTarget =
     [(''0'', JStr ''ES3''), (''1'', JStr ''ES5''), (''2'', JStr ''ES2015''),
      (''3'', JStr ''ES2016''), (''4'', JStr ''ES2017''), (''5'', JStr ''Latest''),
      (''ES3'', JNum (Num 0)), (''ES5'', JNum (Num 1)), (''ES2015'', JNum (Num 2)),
      (''ES2016'', JNum (Num 3)), (''ES2017'', JNum (Num 4)), (''ESNext'', JNum (Num 5)),
      (''Latest'', JNum (Num 5))]"

definition enum_JsxEmit :: "(string \<times> jsval) list" where
  "enum_JsxEmit =
     [(''0'', JStr ''None''), (''1'', JStr ''Preserve''), (''2'', JStr ''React''),
      (''3'', JStr ''ReactNative''),
      (''None'', JNum (Num 0)), (''Preserve'', JNum (Num 1)), (''React'', JNum (Num 2)),
      (''ReactNative'', JNum (Num 3))]"

definition node :: "exn + transpile_output \<Rightarrow> host" where
  "node answer =
     \<lparr>transpileModule = (\<lambda>input opts. answer),
      anymatch = (\<lambda>v. Inr (literal_matcher v)),
      path_resolve = (\<lambda>dir name. dir @ ''/'' @ name),
      require = (\<lambda>f. if f = ''/app/tsconfig.json''
                      then Inr (JObj [(''compilerOptions'', JObj [(''target'', JStr ''es2015'')])])
                      else Inl (Error ''Cannot find module'')),
      JSON_parse = (\<lambda>s. if s = ''{}'' then Inr (JObj []) else Inl SyntaxError),
      JSON_stringify = (\<lambda>v. if v = JObj [] then ''{}'' else ''null''),
      ModuleKind = enum_ModuleKind,
      ScriptTarget = enum_ScriptTarget,
      JsxEmit = enum_JsxEmit,
      toUpperCase = map ascii_upper,
      StringToNumber = decimal,
      ObjectToNumber = (\<lambda>v. NaN)\<rparr>"

text \<open>An instance with no \<^verbatim>\<open>ignoreErrors\<close>, skipping one vendor file.\<close>

definition plain_adapter :: adapter where
  "plain_adapter =
     \<lparr>options = [(''module'', JNum (Num 1)), (''target'', JNum (Num 1)), (''jsx'', JNum (Num 1)),
                 (''emitDecoratorMetadata'', JBool True), (''experimentalDecorators'', JBool True),
                 (''noEmitOnError'', JBool False), (''sourceMap'', JBool False)],
      isIgnored = literal_matcher (JStr ''vendor/jquery.ts''),
      pattern = None, ignoreAllErrors = False, ignoreErrors = None, targetExtension = None\<rparr>"

text \<open>
  A configuration with no plugin options, and the instance both constructors build from it
  on the sample host (up to \<^verbatim>\<open>targetExtension\<close>).
\<close>

definition app_config :: config where
  "app_config =
     \<lparr>plugins = Some \<lparr>typescript = None, brunchTypescript = None\<rparr>,
      paths = Some \<lparr>root' = Some ''/app''\<rparr>,
      sourceMaps = JBool False,
      conventions = Some \<lparr>vendor = JStr ''vendor/jquery.ts''\<rparr>\<rparr>"

definition app_adapter :: adapter where
  "app_adapter =
     \<lparr>options = [(''target'', JNum (Num 2)), (''module'', JNum (Num 1)), (''jsx'', JNum (Num 1)),
                 (''emitDecoratorMetadata'', JBool True), (''experimentalDecorators'', JBool True),
                 (''noEmitOnError'', JBool False), (''sourceMap'', JBool False)],
      isIgnored = literal_matcher (JStr ''vendor/jquery.ts''),
      pattern = None, ignoreAllErrors = False, ignoreErrors = None, targetExtension = None\<rparr>"

text \<open>
  Two answers of the transpile operation: one whose only diagnostic is the missing-module
  code of the fixed set, and one with a syntax error at offset 12 of a file whose lines
  start at 0, 10 and 25.
\<close>

definition missing_module :: transpile_output where
  "missing_module =
     \<lparr>outputText = ''var b = require(1);'',
      diagnostics =
        [\<lparr>code = 2307, messageText = ''Cannot find module b.'', file' = None, start = None\<rparr>],
      sourceMapText = None\<rparr>"

definition syntax_error :: transpile_output where
  "syntax_error =
     \<lparr>outputText = ''var x = ;'',
      diagnostics =
        [\<lparr>code = 1109, messageText = ''Expression expected.'',
          file' = Some \<lparr>lineMap = Some [0, 10, 25]\<rparr>, start = Some 12\<rparr>],
      sourceMapText = None\<rparr>"

text \<open>Configurations with the plugin option \<^verbatim>\<open>ignoreErrors\<close>, as \<^verbatim>\<open>true\<close> and as a list.\<close>

definition quiet_config :: config where
  "quiet_config =
     \<lparr>plugins = Some \<lparr>typescript = None, brunchTypescript = Some [(''ignoreErrors'', JBool True)]\<rparr>,
      paths = None,
      sourceMaps = JBool False,
      conventions = Some \<lparr>vendor = JStr ''vendor/jquery.ts''\<rparr>\<rparr>"

definition lenient_config :: config where
  "lenient_config =
     \<lparr>plugins = Some \<lparr>typescript = None,
                      brunchTypescript = Some [(''ignoreErrors'', JArr [JNum (Num 1109)])]\<rparr>,
      paths = None,
      sourceMaps = JBool False,
      conventions = Some \<lparr>vendor = JStr ''vendor/jquery.ts''\<rparr>\<rparr>"

text \<open>
  The sample configuration without \<^verbatim>\<open>paths\<close>, and with a root that holds no
  \<^verbatim>\<open>tsconfig.json\<close>.
\<close>

definition rootless_config :: config where
  "rootless_config = app_config\<lparr>paths := None\<rparr>"

definition elsewhere_config :: config where
  "elsewhere_config = app_config\<lparr>paths := Some \<lparr>root' = Some ''/elsewhere''\<rparr>\<rparr>"

text \<open>
  An answer with three diagnostics: the syntax error above, a missing module (fixed set)
  and a missing semicolon.
\<close>

definition three_errors :: transpile_output where
  "three_errors =
     \<lparr>outputText = ''var x = ;'',
      diagnostics =
        [\<lparr>code = 1109, messageText = ''Expression expected.'',
          file' = Some \<lparr>lineMap = Some [0, 10, 25]\<rparr>, start = Some 12\<rparr>,
         \<lparr>code = 2307, messageText = ''Cannot find module b.'', file' = None, start = None\<rparr>,
         \<lparr>code = 1005, messageText = ''; expected.'', file' = None, start = None\<rparr>],
      sourceMapText = None\<rparr>"

text \<open>The sample configuration with the plugin options under the key \<^verbatim>\<open>typescript\<close>.\<close>

definition typescript_config :: config where
  "typescript_config =
     app_config\<lparr>plugins :=
       Some \<lparr>typescript = Some [(''ignoreErrors'', JBool True)], brunchTypescript = None\<rparr>\<rparr>"

text \<open>The sample instance in a store: its options object is the only object, at address 0.\<close>

definition app_store :: store where
  "app_store =
     \<lparr>fresh = 1,
      cells = (\<lambda>a. if a = 0 then Some (Plain (JObj (options app_adapter))) else None)\<rparr>"

definition app_this :: this_ref where
  "app_this =
     \<lparr>its_options = 0,
      its_isIgnored = literal_matcher (JStr ''vendor/jquery.ts''),
      its_pattern = None, its_ignoreAllErrors = False, its_ignoreErrors = None,
      its_targetExtension = None\<rparr>"

section \<open>Notions used to state the properties\<close>

text \<open>A direct call seen through the calling convention of promises.\<close>

definition settled :: "completion run \<Rightarrow> promise run" where
  "settled r = \<lparr>state = state r, calls = calls r, outcome = settle (outcome r)\<rparr>"

text \<open>
  The position of a diagnostic in the words of the spec: \<^verbatim>\<open>No line map\<close> without a file or
  a line map; otherwise line and column, counted from 1, of the offset with respect to the
  largest line start that is not beyond it (the last such entry of the table).
\<close>

definition position :: "diagnostic \<Rightarrow> string \<Rightarrow> bool" where
  "position d pos =
     (case file' d of
        None \<Rightarrow> pos = ''No line map''
      | Some f \<Rightarrow>
          (case lineMap f of
             None \<Rightarrow> pos = ''No line map''
           | Some lm \<Rightarrow>
               (\<exists>s. start d = Some s \<and>
                  (\<exists>i<length lm. lm ! i \<le> s
                     \<and> (\<forall>j<length lm. lm ! j \<le> s \<longrightarrow> lm ! j \<le> lm ! i \<and> j \<le> i)
                     \<and> pos = ''Line: '' @ int_to_string (int i + 1) @ '', Col: ''
                              @ int_to_string (s - lm ! i + 1)))))"

definition message :: "diagnostic \<Rightarrow> string \<Rightarrow> bool" where
  "message d m =
     (\<exists>pos. position d pos
        \<and> m = ''Error '' @ int_to_string (code d) @ '': '' @ messageText d @ '' ('' @ pos @ '')'')"

text \<open>
  A diagnostic as the compiler reports it: when its file has a line map, the map is not
  empty and ascending, and the offset is a number at or after the first line start.
\<close>

definition located :: "diagnostic \<Rightarrow> bool" where
  "located d =
     (case file' d of
        None \<Rightarrow> True
      | Some f \<Rightarrow>
          (case lineMap f of
             None \<Rightarrow> True
           | Some lm \<Rightarrow>
               lm \<noteq> [] \<and> sorted lm \<and> (case start d of None \<Rightarrow> False | Some s \<Rightarrow> hd lm \<le> s)))"

section \<open>Facts about the constructors\<close>

lemma resolveEnum_undefined: "resolveEnum h JUndefined table = Inr defaultValue"
  by (simp add: resolveEnum_def)

lemma make_isIgnored_needs_conventions:
  "\<not> truthy (obj_get plugin_options ''ignore'') \<Longrightarrow> conventions config = None \<Longrightarrow>
     make_isIgnored h plugin_options config = Inl TypeError"
  by (simp add: make_isIgnored_def)

lemma finish_construction_needs_conventions:
  "\<not> truthy (obj_get plugin_options ''ignore'') \<Longrightarrow> conventions config = None \<Longrightarrow>
     finish_construction h config plugin_options ext opts = Inl TypeError"
  by (simp add: finish_construction_def make_isIgnored_needs_conventions and_then_def)

lemma and_then_Inr_iff:
  "and_then m f = Inr y \<longleftrightarrow> (\<exists>x. m = Inr x \<and> f x = Inr y)"
  by (cases m) (simp_all add: and_then_def)

lemma constructor_promise_empty: "constructor_promise h (Some empty_config) = Inl TypeError"
  by (simp add: constructor_promise_def construct_promise_def empty_config_def getTsconfig_def options_promise_def
      overlay_def Object_keys_def normalize_def obj_get_def resolveEnum_undefined and_then_def
      finish_construction_needs_conventions)

lemma constructor_promise_omitted: "constructor_promise h None = Inl TypeError"
  using constructor_promise_empty [of h] by (simp add: constructor_promise_def)

lemma constructor_promise_conventions:
  assumes "constructor_promise h (Some c) = Inr a"
    and "\<not> truthy (obj_get (options_promise c) ''ignore'')"
  shows "conventions c \<noteq> None"
proof
  assume "conventions c = None"
  with assms(2) have "\<And>opts. finish_construction h c (options_promise c) None opts = Inl TypeError"
    by (simp add: finish_construction_needs_conventions)
  with assms(1) show False
    by (auto simp add: constructor_promise_def construct_promise_def and_then_Inr_iff)
qed

lemma constructor_throw_needs:
  assumes "constructor_throw h (Some c) = Inr a"
  shows "\<exists>p. plugins c = Some p \<and> paths c \<noteq> None
           \<and> (\<not> truthy (obj_get (options_throw p) ''ignore'') \<longrightarrow> conventions c \<noteq> None)"
proof -
  from assms obtain p where p: "plugins c = Some p"
    by (cases "plugins c") (simp_all add: constructor_throw_def)
  from assms p have "\<exists>loaded. getTSconfig h c = Inr loaded"
    by (auto simp add: constructor_throw_def and_then_Inr_iff)
  then have paths: "paths c \<noteq> None"
    by (auto simp add: getTSconfig_def split: option.splits)
  have "conventions c \<noteq> None" if no: "\<not> truthy (obj_get (options_throw p) ''ignore'')"
  proof
    assume "conventions c = None"
    with no have "\<And>ext opts. finish_construction h c (options_throw p) ext opts = Inl TypeError"
      by (simp add: finish_construction_needs_conventions)
    with assms p show False
      by (auto simp add: constructor_throw_def construct_throw_def and_then_Inr_iff Let_def)
  qed
  with p paths show ?thesis by simp
qed

section \<open>Running the constructors on the sample host\<close>

lemma node_fields:
  "transpileModule (node r) = (\<lambda>input opts. r)"
  "anymatch (node r) = (\<lambda>v. Inr (literal_matcher v))"
  "path_resolve (node r) = (\<lambda>dir name. dir @ ''/'' @ name)"
  "ModuleKind (node r) = enum_ModuleKind"
  "ScriptTarget (node r) = enum_ScriptTarget"
  "JsxEmit (node r) = enum_JsxEmit"
  "toUpperCase (node r) = map ascii_upper"
  "StringToNumber (node r) = decimal"
  by (simp_all add: node_def)

lemma node_require:
  "require (node r) ''/app/tsconfig.json'' =
     Inr (JObj [(''compilerOptions'', JObj [(''target'', JStr ''es2015'')])])"
  by (simp add: node_def)

lemma decimal_es2015: "decimal ''es2015'' = NaN"
  by (simp add: decimal_def digit_value_def)

lemma resolve_es2015:
  "resolveEnum (node r) (JStr ''es2015'') enum_ScriptTarget = Inr (JNum (Num 2))"
  by (simp add: resolveEnum_def isNaN_def node_fields decimal_es2015 Object_keys_def
      enum_ScriptTarget_def ascii_upper_def obj_get_def)

lemma getTsconfig_app:
  "getTsconfig (node r) (Some ''/app'') = JObj [(''target'', JStr ''es2015'')]"
  by (simp add: getTsconfig_def node_fields node_require and_then_def obj_get_def)

lemma getTSconfig_app:
  "getTSconfig (node r) app_config = Inr (JObj [(''target'', JStr ''es2015'')])"
  by (simp add: getTSconfig_def app_config_def node_fields node_require and_then_def obj_get_def)

lemma overlay_nothing: "overlay [] this_options = this_options"
  by (simp add: overlay_def Object_keys_def)

lemma normalize_app:
  "normalize (node r) [(''target'', JStr ''es2015'')] =
     Inr [(''target'', JNum (Num 2)), (''module'', JNum (Num 1)), (''jsx'', JNum (Num 1)),
          (''emitDecoratorMetadata'', JBool True), (''experimentalDecorators'', JBool True),
          (''noEmitOnError'', JBool False)]"
  by (simp add: normalize_def obj_get_def resolveEnum_undefined resolve_es2015 node_fields
      and_then_def defaultValue_def)

lemma finish_app:
  "finish_construction (node r) app_config [] ext
     [(''target'', JNum (Num 2)), (''module'', JNum (Num 1)), (''jsx'', JNum (Num 1)),
      (''emitDecoratorMetadata'', JBool True), (''experimentalDecorators'', JBool True),
      (''noEmitOnError'', JBool False)] = Inr (app_adapter\<lparr>targetExtension := ext\<rparr>)"
  by (simp add: finish_construction_def make_isIgnored_def app_config_def node_fields
      obj_get_def and_then_def app_adapter_def)

lemma app_promise: "constructor_promise (node r) (Some app_config) = Inr app_adapter"
proof -
  have "options_promise app_config = []" "paths app_config = Some \<lparr>root' = Some ''/app''\<rparr>"
    by (simp_all add: options_promise_def app_config_def)
  then show ?thesis
    by (simp add: constructor_promise_def construct_promise_def getTsconfig_app overlay_nothing normalize_app
        finish_app and_then_def app_adapter_def)
qed

lemma app_throw:
  "constructor_throw (node r) (Some app_config) =
     Inr (app_adapter\<lparr>targetExtension := Some ''js''\<rparr>)"
proof -
  have "plugins app_config = Some \<lparr>typescript = None, brunchTypescript = None\<rparr>"
    "options_throw \<lparr>typescript = None, brunchTypescript = None\<rparr> = []"
    by (simp_all add: options_throw_def app_config_def)
  then show ?thesis
    by (simp add: constructor_throw_def construct_throw_def getTSconfig_app overlay_nothing normalize_app
        finish_app and_then_def obj_get_def)
qed


section \<open>Ignored files\<close>

text \<open>
  C1. For every file whose path matches the ignore predicate of the instance, \<^verbatim>\<open>compile\<close>
  delivers the input file itself, unchanged, and makes no call of the transpile operation,
  in both variants and whatever the host.
\<close>

theorem C1_ignored_file_passes_through:
  "isIgnored this (path file) \<Longrightarrow>
     compile_promise h this file =
       \<lparr>state = this, calls = [], outcome = Resolve (Params file)\<rparr>
   \<and> compile_throw h this file =
       \<lparr>state = this, calls = [], outcome = Return (Params file)\<rparr>"
  by (simp add: compile_promise_def compile_throw_def)

text \<open>
  The vendor file of the sample instance, on a host whose transpile operation would throw
  if it were called.
\<close>

theorem C1_witness:
  "isIgnored plain_adapter (path \<lparr>path = ''vendor/jquery.ts'', data = ''var $;''\<rparr>)
   \<and> compile_promise (node (Inl (Error ''called''))) plain_adapter
         \<lparr>path = ''vendor/jquery.ts'', data = ''var $;''\<rparr> =
       \<lparr>state = plain_adapter, calls = [],
        outcome = Resolve (Params \<lparr>path = ''vendor/jquery.ts'', data = ''var $;''\<rparr>)\<rparr>
   \<and> compile_throw (node (Inl (Error ''called''))) plain_adapter
         \<lparr>path = ''vendor/jquery.ts'', data = ''var $;''\<rparr> =
       \<lparr>state = plain_adapter, calls = [],
        outcome = Return (Params \<lparr>path = ''vendor/jquery.ts'', data = ''var $;''\<rparr>)\<rparr>"
proof -
  have ignored: "isIgnored plain_adapter (path \<lparr>path = ''vendor/jquery.ts'', data = ''var $;''\<rparr>)"
    by (simp add: plain_adapter_def literal_matcher_def)
  from ignored C1_ignored_file_passes_through [OF ignored, of "node (Inl (Error ''called''))"]
  show ?thesis by simp
qed

section \<open>resolveEnum\<close>

lemma resolveEnum_loop_find:
  "resolveEnum_loop h s table keys =
     (case find (\<lambda>opt. toUpperCase h s = toUpperCase h opt) keys of
        Some opt \<Rightarrow> obj_get table opt
      | None \<Rightarrow> JNum (Num 1))"
  by (induction keys) (simp_all add: defaultValue_def)

text \<open>
  C6. For every enumeration table, \<^verbatim>\<open>resolveEnum\<close> returns 1 when the choice is absent or
  falsy; the numeric value of the choice, unvalidated, when the choice is truthy and has
  one (so \<^verbatim>\<open>"5"\<close> gives 5 on every host that reads \<^verbatim>\<open>"5"\<close> as five); for any other
  string the table's value at the first key equal to it up to \<^verbatim>\<open>toUpperCase\<close>, and 1
  when no key is; and on a string it never throws.
\<close>

theorem C6_resolveEnum:
  "(\<not> truthy choice \<longrightarrow> resolveEnum h choice table = Inr (JNum (Num 1)))
   \<and> (truthy choice \<and> ToNumber h choice \<noteq> NaN \<longrightarrow>
        resolveEnum h choice table = Inr (JNum (ToNumber h choice)))
   \<and> (StringToNumber h ''5'' = Num 5 \<longrightarrow> resolveEnum h (JStr ''5'') table = Inr (JNum (Num 5)))
   \<and> (s \<noteq> [] \<and> StringToNumber h s = NaN \<longrightarrow>
        resolveEnum h (JStr s) table =
          Inr (case find (\<lambda>opt. toUpperCase h s = toUpperCase h opt) (Object_keys table) of
                 Some opt \<Rightarrow> obj_get table opt
               | None \<Rightarrow> JNum (Num 1)))
   \<and> (\<exists>v. resolveEnum h (JStr s) table = Inr v)"
  by (simp add: resolveEnum_def isNaN_def defaultValue_def resolveEnum_loop_find)

text \<open>The four calls of the spec, on the sample host and the module kinds.\<close>

theorem C6_witness:
  "\<not> truthy JUndefined
   \<and> resolveEnum (node (Inl TypeError)) JUndefined enum_ModuleKind = Inr (JNum (Num 1))
   \<and> StringToNumber (node (Inl TypeError)) ''5'' = Num 5
   \<and> resolveEnum (node (Inl TypeError)) (JStr ''5'') enum_ModuleKind = Inr (JNum (Num 5))
   \<and> StringToNumber (node (Inl TypeError)) ''ESNext'' = NaN
   \<and> resolveEnum (node (Inl TypeError)) (JStr ''ESNext'') enum_ModuleKind = Inr (JNum (Num 6))
   \<and> StringToNumber (node (Inl TypeError)) ''bogus'' = NaN
   \<and> resolveEnum (node (Inl TypeError)) (JStr ''bogus'') enum_ModuleKind = Inr (JNum (Num 1))"
proof -
  let ?N = "node (Inl TypeError)"
  have five: "StringToNumber ?N ''5'' = Num 5"
    by (simp add: node_def decimal_def digit_value_def)
  have esnext: "''ESNext'' \<noteq> [] \<and> StringToNumber ?N ''ESNext'' = NaN"
    by (simp add: node_def decimal_def digit_value_def)
  have bogus: "''bogus'' \<noteq> [] \<and> StringToNumber ?N ''bogus'' = NaN"
    by (simp add: node_def decimal_def digit_value_def)
  have keys: "Object_keys enum_ModuleKind = map fst enum_ModuleKind"
    by (simp add: Object_keys_def enum_ModuleKind_def)
  have up: "toUpperCase ?N = map ascii_upper"
    by (simp add: node_def)
  from C6_resolveEnum [of JUndefined ?N enum_ModuleKind "''5''"]
  have a: "resolveEnum ?N JUndefined enum_ModuleKind = Inr (JNum (Num 1))"
    by simp
  from C6_resolveEnum [of JUndefined ?N enum_ModuleKind "''5''"] five
  have b: "resolveEnum ?N (JStr ''5'') enum_ModuleKind = Inr (JNum (Num 5))"
    by blast
  from C6_resolveEnum [of JUndefined ?N enum_ModuleKind "''ESNext''"] esnext
  have c: "resolveEnum ?N (JStr ''ESNext'') enum_ModuleKind = Inr (JNum (Num 6))"
    by (simp add: keys up) (simp add: enum_ModuleKind_def ascii_upper_def obj_get_def)
  from C6_resolveEnum [of JUndefined ?N enum_ModuleKind "''bogus''"] bogus
  have d: "resolveEnum ?N (JStr ''bogus'') enum_ModuleKind = Inr (JNum (Num 1))"
    by (simp add: keys up) (simp add: enum_ModuleKind_def ascii_upper_def obj_get_def)
  from a b c d five esnext bogus show ?thesis
    by simp
qed

section \<open>Construction without conventions\<close>

text \<open>
  C10. Constructing with an empty configuration object, or with no argument, throws in
  both variants. With no truthy \<^verbatim>\<open>ignore\<close> option the constructor reads
  \<^verbatim>\<open>config.conventions.vendor\<close>, so a construction that succeeds had \<^verbatim>\<open>config.conventions\<close>;
  in the throw-based variant it also had \<^verbatim>\<open>config.plugins\<close> and \<^verbatim>\<open>config.paths\<close>.
\<close>

theorem C10_construction_needs_conventions:
  "constructor_promise h None = Inl TypeError
   \<and> constructor_promise h (Some empty_config) = Inl TypeError
   \<and> constructor_throw h None = Inl TypeError
   \<and> constructor_throw h (Some empty_config) = Inl TypeError
   \<and> (constructor_promise h (Some c) = Inr a
        \<and> \<not> truthy (obj_get (options_promise c) ''ignore'') \<longrightarrow> conventions c \<noteq> None)
   \<and> (constructor_throw h (Some c) = Inr b \<longrightarrow>
        (\<exists>p. plugins c = Some p \<and> paths c \<noteq> None
           \<and> (\<not> truthy (obj_get (options_throw p) ''ignore'') \<longrightarrow> conventions c \<noteq> None)))"
proof -
  have "constructor_throw h None = Inl TypeError"
    by (simp add: constructor_throw_def)
  moreover have "constructor_throw h (Some empty_config) = Inl TypeError"
    by (simp add: constructor_throw_def empty_config_def)
  ultimately show ?thesis
    using constructor_promise_omitted constructor_promise_empty
      constructor_promise_conventions constructor_throw_needs
    by blast
qed

text \<open>The sample configuration has all three and constructs in both variants.\<close>

theorem C10_witness:
  "constructor_promise (node (Inl TypeError)) (Some app_config) = Inr app_adapter
   \<and> \<not> truthy (obj_get (options_promise app_config) ''ignore'')
   \<and> conventions app_config \<noteq> None
   \<and> constructor_throw (node (Inl TypeError)) (Some app_config) =
       Inr (app_adapter\<lparr>targetExtension := Some ''js''\<rparr>)
   \<and> plugins app_config \<noteq> None
   \<and> paths app_config \<noteq> None"
proof -
  have no_ignore: "\<not> truthy (obj_get (options_promise app_config) ''ignore'')"
    by (simp add: options_promise_def app_config_def obj_get_def)
  from C10_construction_needs_conventions
    [of "node (Inl TypeError)" app_config app_adapter "app_adapter\<lparr>targetExtension := Some ''js''\<rparr>"]
    app_promise [of "Inl TypeError"] app_throw [of "Inl TypeError"] no_ignore
  show ?thesis by auto
qed

section \<open>Facts about the fixed ignore-set\<close>

lemma make_result_diagnostics:
  "make_result h p (compiled\<lparr>diagnostics := ds\<rparr>) = make_result h p compiled"
  by (simp add: make_result_def Let_def split: option.splits)

lemma make_result_host:
  "make_result (h\<lparr>transpileModule := t\<rparr>) p compiled = make_result h p compiled"
  by (simp add: make_result_def Let_def split: option.splits)

lemma own_filter_nil: "own_filter this [] = []"
  by (simp add: own_filter_def split: option.splits)

lemma all_ignored_filter:
  "\<forall>d \<in> set ds. code d \<in> ignoredErrors \<Longrightarrow> filter (\<lambda>err. code err \<notin> ignoredErrors) ds = []"
  by (induction ds) simp_all

lemma none_ignored_filter:
  "\<forall>d \<in> set ds. code d \<notin> ignoredErrors \<Longrightarrow> filter (\<lambda>err. code err \<notin> ignoredErrors) ds = ds"
  by (induction ds) simp_all

lemma compile_promise_filtering:
  "compile_promise (filtering_host h) this file = compile_promise h this file"
  by (cases "transpileModule h (data file) (tsOptions this file)")
     (simp_all add: compile_promise_def filtering_host_def transpile_def without_ignored_def
        make_result_diagnostics make_result_host Let_def cong: if_cong)

lemma promise_is_throw_filtered:
  "compile_promise h this file = settled (compile_throw (filtering_host h) this file)"
  by (cases "transpileModule h (data file) (tsOptions this file)")
     (simp_all add: compile_promise_def compile_throw_def settled_def filtering_host_def
        transpile_def without_ignored_def make_result_diagnostics make_result_host Let_def
        split: sum.splits cong: if_cong)

lemma message_2307:
  "toMeaningfulMessage \<lparr>code = 2307, messageText = ''Cannot find module b.'', file' = None, start = None\<rparr>
     = ''Error 2307: Cannot find module b. (No line map)''"
proof -
  have "nat_to_string 2307 = ''2307''" by code_simp
  then show ?thesis
    by (simp add: toMeaningfulMessage_def int_to_string_def errPos_def)
qed

lemma message_1109:
  "toMeaningfulMessage \<lparr>code = 1109, messageText = ''Expression expected.'',
       file' = Some \<lparr>lineMap = Some [0, 10, 25]\<rparr>, start = Some 12\<rparr>
     = ''Error 1109: Expression expected. (Line: 2, Col: 3)''"
proof -
  have code: "nat_to_string 1109 = ''1109''" by code_simp
  have line: "nat_to_string 2 = ''2''" by code_simp
  have col: "nat_to_string 3 = ''3''" by code_simp
  have index: "findLessOrEqual [0, 10, 25] (Some 12) = 1" by code_simp
  show ?thesis
    by (simp add: toMeaningfulMessage_def int_to_string_def errPos_def code line col index
        column_def num_to_string_def)
qed

section \<open>The result object\<close>

text \<open>
  What the result holds when the emitted text is not empty: the text and one newline; no
  map without a source map text; and with one, the parsed map serialized again after its
  \<^verbatim>\<open>sources[0]\<close> was set to the path.
\<close>

lemma make_result_data:
  "make_result h p compiled = Inr r \<Longrightarrow> outputText compiled \<noteq> [] \<Longrightarrow>
     data' r = outputText compiled @ newline"
  by (auto simp add: make_result_def Let_def and_then_Inr_iff split: option.splits if_splits)

lemma make_result_without_map:
  "sourceMapText compiled = None \<Longrightarrow>
     \<exists>r. make_result h p compiled = Inr r \<and> map' r = None"
  by (simp add: make_result_def Let_def)

lemma make_result_with_map:
  "make_result h p compiled = Inr r \<Longrightarrow> sourceMapText compiled = Some mapText \<Longrightarrow> mapText \<noteq> [] \<Longrightarrow>
     \<exists>rawMap patched. JSON_parse h mapText = Inr rawMap \<and> set_sources rawMap p = Inr patched
        \<and> map' r = Some (JSON_stringify h patched)"
  by (auto simp add: make_result_def Let_def and_then_Inr_iff)

lemma set_sources_array:
  "set_sources rawMap p = Inr patched \<Longrightarrow> property rawMap ''sources'' = Inr (JArr xs) \<Longrightarrow>
     property patched ''sources'' = Inr (JArr (JStr p # tl xs))"
  by (cases rawMap; cases xs)
     (auto simp add: set_sources_def and_then_def obj_get_def update_conv')

text \<open>
  C4. The data of the result is meant to be the emitted text and a newline. When the
  emitted text is the empty string (an empty source file, source maps off, no diagnostic)
  both variants deliver \<^verbatim>\<open>[object Object]\<close> and a newline instead: the fallback
  \<^verbatim>\<open>compiled.outputText || compiled\<close> takes the empty string for a missing one.
\<close>

theorem C4_empty_output_text:
  "outcome (compile_promise (node (Inr \<lparr>outputText = [], diagnostics = [], sourceMapText = None\<rparr>))
      app_adapter \<lparr>path = ''empty.ts'', data = []\<rparr>) =
     Resolve (Result \<lparr>data' = ''[object Object]'' @ newline, map' = None\<rparr>)
   \<and> outcome (compile_throw (node (Inr \<lparr>outputText = [], diagnostics = [], sourceMapText = None\<rparr>))
      (app_adapter\<lparr>targetExtension := Some ''js''\<rparr>) \<lparr>path = ''empty.ts'', data = []\<rparr>) =
     Return (Result \<lparr>data' = ''[object Object]'' @ newline, map' = None\<rparr>)"
  by (simp add: compile_promise_def compile_throw_def app_adapter_def
      literal_matcher_def node_fields own_filter_def make_result_def)

section \<open>Diagnostic messages\<close>

text \<open>
  On an ascending table the loop of \<^verbatim>\<open>findLessOrEqual\<close>, started at an entry that is not
  beyond the needle, stops at the last entry that is not beyond it.
\<close>

lemma findLessOrEqual_loop_largest:
  assumes "sorted lm" and "i < length lm" and "lm ! i \<le> s"
  shows "findLessOrEqual_loop lm (Some s) i < length lm
    \<and> lm ! findLessOrEqual_loop lm (Some s) i \<le> s
    \<and> (\<forall>j<length lm. lm ! j \<le> s \<longrightarrow> j \<le> findLessOrEqual_loop lm (Some s) i)"
  using assms
proof (induction lm "Some s" i rule: findLessOrEqual_loop.induct)
  case (1 haystack i)
  show ?case
  proof (cases "i + 1 < length haystack \<and> ge (Some s) (haystack ! (i + 1))")
    case True
    then have step: "findLessOrEqual_loop haystack (Some s) i
        = findLessOrEqual_loop haystack (Some s) (i + 1)"
      by (subst findLessOrEqual_loop.simps) simp
    from True have "haystack ! (i + 1) \<le> s"
      by (simp add: ge_def)
    with "1.hyps" [OF True "1.prems"(1)] True show ?thesis
      by (simp add: step)
  next
    case False
    then have stop: "findLessOrEqual_loop haystack (Some s) i = i"
      by (subst findLessOrEqual_loop.simps) auto
    have "j \<le> i" if j: "j < length haystack" "haystack ! j \<le> s" for j
    proof (rule ccontr)
      assume "\<not> j \<le> i"
      then have later: "i + 1 \<le> j" by simp
      with j have "i + 1 < length haystack \<or> i + 1 = j" by linarith
      with j have inside: "i + 1 < length haystack" by auto
      from "1.prems"(1) later j have "haystack ! (i + 1) \<le> haystack ! j"
        by (simp add: sorted_nth_mono)
      with j have "haystack ! (i + 1) \<le> s" by simp
      with inside False show False by (simp add: ge_def)
    qed
    with "1.prems" show ?thesis
      by (simp add: stop)
  qed
qed

lemma errPos_position:
  assumes "located d"
  shows "position d (errPos d)"
proof (cases "file' d")
  case None
  then show ?thesis by (simp add: position_def errPos_def)
next
  case (Some f)
  show ?thesis
  proof (cases "lineMap f")
    case None
    with Some show ?thesis by (simp add: position_def errPos_def)
  next
    case lm: (Some lm)
    from assms Some lm obtain s where s: "start d = Some s"
      and table: "lm \<noteq> []" "sorted lm" "hd lm \<le> s"
      by (auto simp add: located_def split: option.splits)
    let ?i = "findLessOrEqual_loop lm (Some s) 0"
    from table have "0 < length lm" "lm ! 0 \<le> s"
      by (simp_all add: hd_conv_nth)
    from findLessOrEqual_loop_largest [OF table(2) this]
    have i: "?i < length lm" "lm ! ?i \<le> s" "\<forall>j<length lm. lm ! j \<le> s \<longrightarrow> j \<le> ?i"
      by simp_all
    from i(1) have index: "findLessOrEqual lm (Some s) = int ?i"
      by (simp add: findLessOrEqual_def)
    have largest: "\<forall>j<length lm. lm ! j \<le> s \<longrightarrow> lm ! j \<le> lm ! ?i \<and> j \<le> ?i"
      using i table(2) by (auto simp add: sorted_nth_mono)
    have pos: "errPos d = ''Line: '' @ int_to_string (int ?i + 1) @ '', Col: ''
                  @ int_to_string (s - lm ! ?i + 1)"
      using Some lm s i(1)
      by (simp add: errPos_def index column_def num_to_string_def)
    show ?thesis
      unfolding position_def using Some lm s i(1,2) largest pos
      by auto
  qed
qed

lemma toMeaningfulMessage_message: "located d \<Longrightarrow> message d (toMeaningfulMessage d)"
  using errPos_position [of d] by (auto simp add: message_def toMeaningfulMessage_def)

lemma own_filter_subset: "set (own_filter this ds) \<subseteq> set ds"
  by (auto simp add: own_filter_def split: option.splits)

lemma messages_of_located:
  "\<forall>d \<in> set ds. located d \<Longrightarrow> list_all2 message ds (map toMeaningfulMessage ds)"
  by (induction ds) (simp_all add: toMeaningfulMessage_message)

lemma message_1005:
  "toMeaningfulMessage \<lparr>code = 1005, messageText = ''; expected.'', file' = None, start = None\<rparr>
     = ''Error 1005: ; expected. (No line map)''"
proof -
  have "nat_to_string 1005 = ''1005''" by code_simp
  then show ?thesis
    by (simp add: toMeaningfulMessage_def int_to_string_def errPos_def)
qed

text \<open>
  C5. When diagnostics survive the filters, the call fails with one string: the messages of
  the surviving diagnostics, in order, joined with newlines. The message of a diagnostic is
  \<^verbatim>\<open>Error <code>: <messageText> (<position>)\<close>, and the position is \<^verbatim>\<open>No line map\<close> when
  the diagnostic has no file or the file no line map, and otherwise \<^verbatim>\<open>Line: L, Col: C\<close>,
  counted from 1, found from the largest line start at or before the offset. The
  diagnostics are as the compiler reports them (\<open>located\<close>). Both variants, each with
  its own filters.
\<close>

theorem C5_failure_message:
  assumes "\<not> isIgnored this (path file)"
    and "transpileModule h (data file) (tsOptions this file) = Inr compiled"
    and "\<forall>d \<in> set (diagnostics compiled). located d"
  shows "(let reportable = own_filter this
                (filter (\<lambda>err. code err \<notin> ignoredErrors) (diagnostics compiled))
          in reportable \<noteq> [] \<longrightarrow>
             (\<exists>ms. list_all2 message reportable ms
                \<and> outcome (compile_promise h this file) = Reject (Message (join ms newline))))
       \<and> (let diag = own_filter this (diagnostics compiled)
          in diag \<noteq> [] \<longrightarrow>
             (\<exists>ms. list_all2 message diag ms
                \<and> outcome (compile_throw h this file) = Throw (Message (join ms newline))))"
proof -
  let ?reportable = "own_filter this
                (filter (\<lambda>err. code err \<notin> ignoredErrors) (diagnostics compiled))"
  let ?diag = "own_filter this (diagnostics compiled)"
  have "set ?reportable \<subseteq> set (diagnostics compiled)"
    using own_filter_subset [of this "filter (\<lambda>err. code err \<notin> ignoredErrors) (diagnostics compiled)"]
    by auto
  with assms(3) have "\<forall>d \<in> set ?reportable. located d" by blast
  then have r: "list_all2 message ?reportable (map toMeaningfulMessage ?reportable)"
    by (rule messages_of_located)
  from assms(3) own_filter_subset [of this "diagnostics compiled"]
  have "\<forall>d \<in> set ?diag. located d" by blast
  then have d: "list_all2 message ?diag (map toMeaningfulMessage ?diag)"
    by (rule messages_of_located)
  have p: "?reportable \<noteq> [] \<Longrightarrow> outcome (compile_promise h this file)
      = Reject (Message (join (map toMeaningfulMessage ?reportable) newline))"
    using assms(1,2) by (simp add: compile_promise_def)
  have t: "?diag \<noteq> [] \<Longrightarrow> outcome (compile_throw h this file)
      = Throw (Message (join (map toMeaningfulMessage ?diag) newline))"
    using assms(1,2) by (simp add: compile_throw_def)
  from r d p t show ?thesis
    unfolding Let_def by blast
qed

text \<open>
  Three diagnostics on the sample instance: the one of the fixed set is dropped by the
  promise-returning variant, the other two are reported on two lines.
\<close>

theorem C5_witness:
  "\<not> isIgnored app_adapter (path \<lparr>path = ''a.ts'', data = ''var x = ;''\<rparr>)
   \<and> list_all located (diagnostics three_errors)
   \<and> (\<exists>ms. list_all2 message
               [\<lparr>code = 1109, messageText = ''Expression expected.'',
                  file' = Some \<lparr>lineMap = Some [0, 10, 25]\<rparr>, start = Some 12\<rparr>,
                \<lparr>code = 1005, messageText = ''; expected.'', file' = None, start = None\<rparr>] ms
          \<and> outcome (compile_promise (node (Inr three_errors)) app_adapter
                 \<lparr>path = ''a.ts'', data = ''var x = ;''\<rparr>) = Reject (Message (join ms newline)))
   \<and> outcome (compile_promise (node (Inr three_errors)) app_adapter
          \<lparr>path = ''a.ts'', data = ''var x = ;''\<rparr>) =
       Reject (Message (''Error 1109: Expression expected. (Line: 2, Col: 3)'' @ newline
                        @ ''Error 1005: ; expected. (No line map)''))
   \<and> (\<exists>ms. list_all2 message (diagnostics three_errors) ms
          \<and> outcome (compile_throw (node (Inr three_errors)) app_adapter
                 \<lparr>path = ''a.ts'', data = ''var x = ;''\<rparr>) = Throw (Message (join ms newline)))"
proof -
  let ?f = "\<lparr>path = ''a.ts'', data = ''var x = ;''\<rparr>"
  let ?N = "node (Inr three_errors)"
  have processed: "\<not> isIgnored app_adapter (path ?f)"
    by (simp add: app_adapter_def literal_matcher_def)
  have answer: "transpileModule ?N (data ?f) (tsOptions app_adapter ?f) = Inr three_errors"
    by (simp add: node_fields)
  have inside: "\<forall>d \<in> set (diagnostics three_errors). located d"
    by (simp add: three_errors_def located_def)
  have own: "own_filter app_adapter ds = ds" for ds
    by (simp add: own_filter_def app_adapter_def)
  have kept: "filter (\<lambda>err. code err \<notin> ignoredErrors) (diagnostics three_errors) =
      [\<lparr>code = 1109, messageText = ''Expression expected.'',
         file' = Some \<lparr>lineMap = Some [0, 10, 25]\<rparr>, start = Some 12\<rparr>,
       \<lparr>code = 1005, messageText = ''; expected.'', file' = None, start = None\<rparr>]"
    by (simp add: three_errors_def ignoredErrors_def)
  have nonempty: "diagnostics three_errors \<noteq> []"
    by (simp add: three_errors_def)
  have evaluated: "outcome (compile_promise ?N app_adapter ?f) =
       Reject (Message (''Error 1109: Expression expected. (Line: 2, Col: 3)'' @ newline
                        @ ''Error 1005: ; expected. (No line map)''))"
    using processed
    by (simp add: compile_promise_def node_fields own kept message_1109 message_1005)
  from inside have all_inside: "list_all located (diagnostics three_errors)"
    by (simp add: list_all_iff)
  from C5_failure_message [OF processed answer inside] processed all_inside evaluated nonempty
  show ?thesis
    by (simp add: own kept Let_def)
qed

section \<open>The ignoreErrors option\<close>

lemma obj_get_update:
  "obj_get (AList.update k v al) k' = (if k' = k then v else obj_get al k')"
  by (simp add: obj_get_def update_conv')

lemma obj_get_delete:
  "obj_get (AList.delete k al) k' = (if k' = k then JUndefined else obj_get al k')"
  by (simp add: obj_get_def delete_conv')

lemma obj_get_fold_overlay:
  "obj_get (fold (\<lambda>key acc.
             if key = ''sourceMap'' \<or> key = ''ignore'' then acc
             else AList.update key (obj_get plugin_options key) acc) keys this_options) k
     = (if k \<in> set keys \<and> k \<noteq> ''sourceMap'' \<and> k \<noteq> ''ignore''
        then obj_get plugin_options k else obj_get this_options k)"
  by (induction keys arbitrary: this_options) (auto simp add: obj_get_update)

lemma obj_get_overlay:
  "obj_get (overlay plugin_options this_options) k
     = (if map_of plugin_options k \<noteq> None \<and> k \<noteq> ''sourceMap'' \<and> k \<noteq> ''ignore''
        then obj_get plugin_options k else obj_get this_options k)"
  by (simp add: overlay_def obj_get_fold_overlay Object_keys_def map_of_eq_None_iff)

lemma normalize_keeps_ignoreErrors:
  "normalize h opts = Inr opts' \<Longrightarrow> obj_get opts' ''ignoreErrors'' = obj_get opts ''ignoreErrors''"
  by (auto simp add: normalize_def and_then_Inr_iff Let_def obj_get_update obj_get_delete)

lemma finish_construction_filter:
  assumes "finish_construction h config plugin_options ext opts = Inr this"
  shows "(obj_get opts ''ignoreErrors'' = JBool True \<longrightarrow> ignoreAllErrors this)
       \<and> (obj_get opts ''ignoreErrors'' = JArr xs \<longrightarrow>
            \<not> ignoreAllErrors this \<and> ignoreErrors this = Some (set xs))"
  using assms
  by (auto simp add: finish_construction_def and_then_Inr_iff Let_def obj_get_update obj_get_delete
      split: if_splits)

lemma constructor_promise_filter:
  assumes "constructor_promise h (Some c) = Inr this"
    and "obj_get (options_promise c) ''ignoreErrors'' = v" and "v \<noteq> JUndefined"
  shows "(v = JBool True \<longrightarrow> ignoreAllErrors this)
       \<and> (v = JArr xs \<longrightarrow> \<not> ignoreAllErrors this \<and> ignoreErrors this = Some (set xs))"
proof -
  from assms(1) obtain this_options opts where
    n: "normalize h (overlay (options_promise c) this_options) = Inr opts"
    and f: "finish_construction h c (options_promise c) None opts = Inr this"
    by (auto simp add: constructor_promise_def construct_promise_def and_then_Inr_iff)
  from assms(2,3) have "map_of (options_promise c) ''ignoreErrors'' \<noteq> None"
    by (auto simp add: obj_get_def split: option.splits)
  with assms(2) have "obj_get (overlay (options_promise c) this_options) ''ignoreErrors'' = v"
    by (simp add: obj_get_overlay)
  with normalize_keeps_ignoreErrors [OF n] have "obj_get opts ''ignoreErrors'' = v"
    by simp
  with finish_construction_filter [OF f, of xs] show ?thesis
    by simp
qed

lemma has_codes:
  "has ((\<lambda>n. JNum (Num (of_int n))) ` S) c \<longleftrightarrow> c \<in> S"
  by (auto simp add: has_def)

lemma filter_filter_codes:
  "filter (\<lambda>err. code err \<notin> set codes) (filter (\<lambda>err. code err \<notin> ignoredErrors) ds)
     = filter (\<lambda>d. code d \<notin> ignoredErrors \<and> code d \<notin> set codes) ds"
  by (induction ds) auto

lemma construct_promise_quiet:
  "constructor_promise (node r) (Some quiet_config) = Inr (plain_adapter\<lparr>ignoreAllErrors := True\<rparr>)"
proof -
  have "options_promise quiet_config = [(''ignoreErrors'', JBool True)]" "paths quiet_config = None"
    by (simp_all add: options_promise_def quiet_config_def)
  then show ?thesis
    by (simp add: constructor_promise_def construct_promise_def getTsconfig_def overlay_def
        Object_keys_def normalize_def obj_get_def resolveEnum_undefined and_then_def
        defaultValue_def finish_construction_def make_isIgnored_def quiet_config_def node_fields
        plain_adapter_def Let_def)
qed

lemma construct_promise_lenient:
  "constructor_promise (node r) (Some lenient_config) =
     Inr (plain_adapter\<lparr>ignoreErrors := Some {JNum (Num 1109)}\<rparr>)"
proof -
  have "options_promise lenient_config = [(''ignoreErrors'', JArr [JNum (Num 1109)])]"
    "paths lenient_config = None"
    by (simp_all add: options_promise_def lenient_config_def)
  then show ?thesis
    by (simp add: constructor_promise_def construct_promise_def getTsconfig_def overlay_def
        Object_keys_def normalize_def obj_get_def resolveEnum_undefined and_then_def
        defaultValue_def finish_construction_def make_isIgnored_def lenient_config_def node_fields
        plain_adapter_def Let_def)
qed

text \<open>
  C3 (\<^verbatim>\<open>index.js\<close>). With the plugin option \<^verbatim>\<open>ignoreErrors: true\<close> no diagnostic counts,
  whatever its code: the call ends as the result object decides. With a list of numeric
  codes, the diagnostics that remain are exactly those whose code is neither in the fixed
  set nor in the list; when one remains the call fails with the messages of the remaining
  ones, and otherwise it ends as the result object decides.
\<close>

theorem C3_ignoreErrors_option:
  assumes "constructor_promise h (Some c) = Inr this"
    and "\<not> isIgnored this (path file)"
    and "transpileModule h (data file) (tsOptions this file) = Inr compiled"
  shows "(obj_get (options_promise c) ''ignoreErrors'' = JBool True \<longrightarrow>
            outcome (compile_promise h this file) =
              (case make_result h (path file) compiled of
                 Inl err \<Rightarrow> Reject (Exception err)
               | Inr result \<Rightarrow> Resolve (Result result)))
       \<and> (obj_get (options_promise c) ''ignoreErrors'' = JArr (map (\<lambda>n. JNum (Num (of_int n))) codes) \<longrightarrow>
            (let remaining = filter (\<lambda>d. code d \<notin> ignoredErrors \<and> code d \<notin> set codes)
                               (diagnostics compiled)
             in outcome (compile_promise h this file) =
                  (if remaining \<noteq> []
                   then Reject (Message (join (map toMeaningfulMessage remaining) newline))
                   else (case make_result h (path file) compiled of
                           Inl err \<Rightarrow> Reject (Exception err)
                         | Inr result \<Rightarrow> Resolve (Result result)))))"
proof (intro conjI impI)
  assume "obj_get (options_promise c) ''ignoreErrors'' = JBool True"
  with constructor_promise_filter [OF assms(1), of "JBool True"] have "ignoreAllErrors this"
    by simp
  with assms(2,3) show "outcome (compile_promise h this file) =
              (case make_result h (path file) compiled of
                 Inl err \<Rightarrow> Reject (Exception err)
               | Inr result \<Rightarrow> Resolve (Result result))"
    by (simp add: compile_promise_def own_filter_def)
next
  let ?xs = "map (\<lambda>n. JNum (Num (of_int n))) codes"
  assume "obj_get (options_promise c) ''ignoreErrors'' = JArr ?xs"
  with constructor_promise_filter [OF assms(1), of "JArr ?xs" ?xs]
  have "\<not> ignoreAllErrors this" "ignoreErrors this = Some (set ?xs)"
    by simp_all
  then have "own_filter this (filter (\<lambda>err. code err \<notin> ignoredErrors) (diagnostics compiled))
      = filter (\<lambda>d. code d \<notin> ignoredErrors \<and> code d \<notin> set codes) (diagnostics compiled)"
    by (simp add: own_filter_def has_codes filter_filter_codes)
  with assms(2,3) show "let remaining = filter (\<lambda>d. code d \<notin> ignoredErrors \<and> code d \<notin> set codes)
                               (diagnostics compiled)
             in outcome (compile_promise h this file) =
                  (if remaining \<noteq> []
                   then Reject (Message (join (map toMeaningfulMessage remaining) newline))
                   else (case make_result h (path file) compiled of
                           Inl err \<Rightarrow> Reject (Exception err)
                         | Inr result \<Rightarrow> Resolve (Result result)))"
    by (simp add: compile_promise_def Let_def)
qed

text \<open>
  The answer with three diagnostics: everything is suppressed by \<^verbatim>\<open>true\<close>; with the list
  \<^verbatim>\<open>[1109]\<close> the missing semicolon (1005) still fails the call.
\<close>

theorem C3_witness:
  "constructor_promise (node (Inr three_errors)) (Some quiet_config) =
       Inr (plain_adapter\<lparr>ignoreAllErrors := True\<rparr>)
   \<and> obj_get (options_promise quiet_config) ''ignoreErrors'' = JBool True
   \<and> outcome (compile_promise (node (Inr three_errors)) (plain_adapter\<lparr>ignoreAllErrors := True\<rparr>)
          \<lparr>path = ''a.ts'', data = ''var x = ;''\<rparr>) =
       Resolve (Result \<lparr>data' = ''var x = ;'' @ newline, map' = None\<rparr>)
   \<and> constructor_promise (node (Inr three_errors)) (Some lenient_config) =
       Inr (plain_adapter\<lparr>ignoreErrors := Some {JNum (Num 1109)}\<rparr>)
   \<and> obj_get (options_promise lenient_config) ''ignoreErrors'' = JArr [JNum (Num 1109)]
   \<and> outcome (compile_promise (node (Inr three_errors))
          (plain_adapter\<lparr>ignoreErrors := Some {JNum (Num 1109)}\<rparr>)
          \<lparr>path = ''a.ts'', data = ''var x = ;''\<rparr>) =
       Reject (Message ''Error 1005: ; expected. (No line map)'')"
proof -
  let ?f = "\<lparr>path = ''a.ts'', data = ''var x = ;''\<rparr>"
  let ?N = "node (Inr three_errors)"
  let ?quiet = "plain_adapter\<lparr>ignoreAllErrors := True\<rparr>"
  let ?lenient = "plain_adapter\<lparr>ignoreErrors := Some {JNum (Num 1109)}\<rparr>"
  have processed: "\<not> isIgnored ?quiet (path ?f)" "\<not> isIgnored ?lenient (path ?f)"
    by (simp_all add: plain_adapter_def literal_matcher_def)
  have answer: "transpileModule ?N (data ?f) (tsOptions ?quiet ?f) = Inr three_errors"
    "transpileModule ?N (data ?f) (tsOptions ?lenient ?f) = Inr three_errors"
    by (simp_all add: node_fields)
  have option: "obj_get (options_promise quiet_config) ''ignoreErrors'' = JBool True"
    "obj_get (options_promise lenient_config) ''ignoreErrors'' = JArr (map (\<lambda>n. JNum (Num (of_int n))) [1109])"
    by (simp_all add: options_promise_def quiet_config_def lenient_config_def obj_get_def)
  have result: "make_result ?N (path ?f) three_errors =
      Inr \<lparr>data' = ''var x = ;'' @ newline, map' = None\<rparr>"
    by (simp add: make_result_def three_errors_def)
  have remaining: "filter (\<lambda>d. code d \<notin> ignoredErrors \<and> code d \<notin> set [1109]) (diagnostics three_errors)
      = [\<lparr>code = 1005, messageText = ''; expected.'', file' = None, start = None\<rparr>]"
    by (simp add: three_errors_def ignoredErrors_def)
  from C3_ignoreErrors_option [OF construct_promise_quiet processed(1) answer(1), of "[]"] option(1) result
  have a: "outcome (compile_promise ?N ?quiet ?f) =
       Resolve (Result \<lparr>data' = ''var x = ;'' @ newline, map' = None\<rparr>)"
    by simp
  from C3_ignoreErrors_option [OF construct_promise_lenient processed(2) answer(2), of "[1109]"] option(2)
  have b: "outcome (compile_promise ?N ?lenient ?f) =
       Reject (Message ''Error 1005: ; expected. (No line map)'')"
    by (simp add: remaining message_1005 Let_def del: set_simps)
  from a b option construct_promise_quiet [of "Inr three_errors"]
    construct_promise_lenient [of "Inr three_errors"]
  show ?thesis by simp
qed

section \<open>Loading tsconfig.json\<close>

lemma getTsconfig_absent:
  "configRoot = None \<or> configRoot = Some []
     \<or> (\<exists>r e. configRoot = Some r \<and> require h (path_resolve h r ''tsconfig.json'') = Inl e)
   \<Longrightarrow> getTsconfig h configRoot = JObj []"
  by (auto simp add: getTsconfig_def and_then_def)

lemma getTSconfig_fails:
  "paths c = Some p \<Longrightarrow> root' p = Some r \<Longrightarrow>
     require h (path_resolve h r ''tsconfig.json'') = Inl e \<Longrightarrow> getTSconfig h c = Inr (JObj [])"
  by (simp add: getTSconfig_def and_then_def)

lemma getTSconfig_rootless:
  "paths c = None \<or> (\<exists>p. paths c = Some p \<and> root' p = None) \<Longrightarrow> getTSconfig h c = Inl TypeError"
  by (auto simp add: getTSconfig_def)

lemma normalize_nothing:
  "normalize (node r) [] =
     Inr [(''module'', JNum (Num 1)), (''target'', JNum (Num 1)), (''jsx'', JNum (Num 1)),
          (''emitDecoratorMetadata'', JBool True), (''experimentalDecorators'', JBool True),
          (''noEmitOnError'', JBool False)]"
  by (simp add: normalize_def obj_get_def resolveEnum_undefined and_then_def defaultValue_def)

lemma finish_plain:
  "conventions c = Some \<lparr>vendor = JStr ''vendor/jquery.ts''\<rparr> \<Longrightarrow> sourceMaps c = JBool False \<Longrightarrow>
   finish_construction (node r) c [] ext
     [(''module'', JNum (Num 1)), (''target'', JNum (Num 1)), (''jsx'', JNum (Num 1)),
      (''emitDecoratorMetadata'', JBool True), (''experimentalDecorators'', JBool True),
      (''noEmitOnError'', JBool False)] = Inr (plain_adapter\<lparr>targetExtension := ext\<rparr>)"
  by (simp add: finish_construction_def make_isIgnored_def node_fields
      obj_get_def and_then_def plain_adapter_def)

lemma construct_promise_plain:
  "options_promise c = [] \<Longrightarrow> conventions c = Some \<lparr>vendor = JStr ''vendor/jquery.ts''\<rparr> \<Longrightarrow>
   sourceMaps c = JBool False \<Longrightarrow> construct_promise (node r) c (JObj []) = Inr plain_adapter"
  by (simp add: construct_promise_def overlay_nothing normalize_nothing finish_plain and_then_def
      plain_adapter_def)

lemma construct_throw_plain:
  "options_throw q = [] \<Longrightarrow> conventions c = Some \<lparr>vendor = JStr ''vendor/jquery.ts''\<rparr> \<Longrightarrow>
   sourceMaps c = JBool False \<Longrightarrow>
   construct_throw (node r) c q (JObj []) = Inr (plain_adapter\<lparr>targetExtension := Some ''js''\<rparr>)"
  by (simp add: construct_throw_def overlay_nothing normalize_nothing finish_plain and_then_def
      obj_get_def)

text \<open>
  C7, as stated, fails on the throw-based variant: without \<^verbatim>\<open>config.paths\<close> its constructor
  throws a \<^verbatim>\<open>TypeError\<close>, where the same configuration with a root constructs.
\<close>

theorem C7_counterexample:
  "constructor_throw (node (Inl TypeError)) (Some rootless_config) = Inl TypeError
   \<and> rootless_config = app_config\<lparr>paths := None\<rparr>
   \<and> constructor_throw (node (Inl TypeError)) (Some app_config) =
       Inr (app_adapter\<lparr>targetExtension := Some ''js''\<rparr>)"
proof -
  have "constructor_throw (node (Inl TypeError)) (Some rootless_config) = Inl TypeError"
    by (simp add: constructor_throw_def rootless_config_def app_config_def getTSconfig_def
        and_then_def)
  moreover have "rootless_config = app_config\<lparr>paths := None\<rparr>"
    by (simp add: rootless_config_def)
  ultimately show ?thesis
    using app_throw [of "Inl TypeError"] by simp
qed

text \<open>
  C7, amended. A \<^verbatim>\<open>tsconfig.json\<close> that cannot be found or parsed (\<^verbatim>\<open>require\<close> throws) is
  taken as an empty options mapping in both variants: the constructor goes on exactly as
  from \<^verbatim>\<open>{}\<close>. A missing or empty config-root path is taken so by the promise-returning
  variant only; the throw-based variant reads \<^verbatim>\<open>config.paths.root\<close> unguarded and its
  constructor throws a \<^verbatim>\<open>TypeError\<close> without it.
\<close>

theorem C7_amended:
  "((paths c = None
       \<or> (\<exists>p. paths c = Some p \<and>
             (root' p = None \<or> root' p = Some []
                \<or> (\<exists>r e. root' p = Some r \<and> require h (path_resolve h r ''tsconfig.json'') = Inl e))))
      \<longrightarrow> constructor_promise h (Some c) = construct_promise h c (JObj []))
   \<and> (plugins c = Some q \<and> paths c = Some p \<and> root' p = Some r
        \<and> require h (path_resolve h r ''tsconfig.json'') = Inl e
      \<longrightarrow> constructor_throw h (Some c) = construct_throw h c q (JObj []))
   \<and> (paths c = None \<or> (\<exists>p. paths c = Some p \<and> root' p = None)
      \<longrightarrow> constructor_throw h (Some c) = Inl TypeError)"
proof (intro conjI impI)
  assume "paths c = None
       \<or> (\<exists>p. paths c = Some p \<and>
             (root' p = None \<or> root' p = Some []
                \<or> (\<exists>r e. root' p = Some r \<and> require h (path_resolve h r ''tsconfig.json'') = Inl e)))"
  then have "getTsconfig h (case paths c of None \<Rightarrow> None | Some p \<Rightarrow> root' p) = JObj []"
    by (intro getTsconfig_absent) (auto split: option.splits)
  then show "constructor_promise h (Some c) = construct_promise h c (JObj [])"
    by (simp add: constructor_promise_def)
next
  assume "plugins c = Some q \<and> paths c = Some p \<and> root' p = Some r
        \<and> require h (path_resolve h r ''tsconfig.json'') = Inl e"
  then show "constructor_throw h (Some c) = construct_throw h c q (JObj [])"
    by (simp add: constructor_throw_def getTSconfig_fails and_then_def)
next
  assume "paths c = None \<or> (\<exists>p. paths c = Some p \<and> root' p = None)"
  then have "getTSconfig h c = Inl TypeError"
    by (rule getTSconfig_rootless)
  then show "constructor_throw h (Some c) = Inl TypeError"
    by (simp add: constructor_throw_def and_then_def split: option.splits)
qed

text \<open>The sample configuration without a root, and with a root that has no file.\<close>

theorem C7_witness:
  "paths rootless_config = None
   \<and> constructor_promise (node (Inl TypeError)) (Some rootless_config) = Inr plain_adapter
   \<and> constructor_throw (node (Inl TypeError)) (Some rootless_config) = Inl TypeError
   \<and> require (node (Inl TypeError))
        (path_resolve (node (Inl TypeError)) ''/elsewhere'' ''tsconfig.json'') =
       Inl (Error ''Cannot find module'')
   \<and> constructor_promise (node (Inl TypeError)) (Some elsewhere_config) = Inr plain_adapter
   \<and> constructor_throw (node (Inl TypeError)) (Some elsewhere_config) =
       Inr (plain_adapter\<lparr>targetExtension := Some ''js''\<rparr>)"
proof -
  let ?N = "node (Inl TypeError)"
  let ?q = "\<lparr>typescript = None, brunchTypescript = None\<rparr>"
  let ?p = "\<lparr>root' = Some ''/elsewhere''\<rparr>"
  have rootless: "paths rootless_config = None" "options_promise rootless_config = []"
    "conventions rootless_config = Some \<lparr>vendor = JStr ''vendor/jquery.ts''\<rparr>"
    "sourceMaps rootless_config = JBool False"
    by (simp_all add: rootless_config_def app_config_def options_promise_def)
  have elsewhere: "paths elsewhere_config = Some ?p" "plugins elsewhere_config = Some ?q"
    "options_promise elsewhere_config = []" "options_throw ?q = []"
    "conventions elsewhere_config = Some \<lparr>vendor = JStr ''vendor/jquery.ts''\<rparr>"
    "sourceMaps elsewhere_config = JBool False"
    by (simp_all add: elsewhere_config_def app_config_def options_promise_def options_throw_def)
  have missing: "require ?N (path_resolve ?N ''/elsewhere'' ''tsconfig.json'')
      = Inl (Error ''Cannot find module'')"
    by (simp add: node_def)
  from C7_amended [of rootless_config ?N ?q ?p "''/elsewhere''" "Error ''Cannot find module''"] rootless
  have a: "constructor_promise ?N (Some rootless_config) = Inr plain_adapter"
    "constructor_throw ?N (Some rootless_config) = Inl TypeError"
    by (simp_all add: construct_promise_plain)
  from C7_amended [of elsewhere_config ?N ?q ?p "''/elsewhere''" "Error ''Cannot find module''"]
    elsewhere missing
  have b: "constructor_promise ?N (Some elsewhere_config) = Inr plain_adapter"
    "constructor_throw ?N (Some elsewhere_config) = Inr (plain_adapter\<lparr>targetExtension := Some ''js''\<rparr>)"
    by (simp_all add: construct_promise_plain construct_throw_plain)
  from a b rootless(1) missing show ?thesis by simp
qed

section \<open>The instance is not written by compile\<close>

text \<open>
  Facts about the store: allocation and the operations of \<^verbatim>\<open>compile\<close> leave a frame, the
  outcome of a call is the one of the definitions on values, and it is decided by what the
  transpile operation is handed.
\<close>

lemma alloc_simps:
  "fst (alloc c s) = fresh s"
  "fresh (snd (alloc c s)) = Suc (fresh s)"
  "cells (snd (alloc c s)) x = (if x = fresh s then Some c else cells s x)"
  by (simp_all add: alloc_def)

lemma own_filter_the_adapter:
  "own_filter (the_adapter this s) ds = own_filter (the_adapter this s') ds"
  by (simp add: own_filter_def the_adapter_def)

lemma make_result_at_value: "fst (make_result_at h p compiled s) = make_result h p compiled"
  by (simp add: make_result_at_def make_result_def Let_def alloc_def and_then_def
      split: option.splits sum.splits prod.splits)

lemma make_result_at_frame:
  "fresh s \<le> fresh (snd (make_result_at h p compiled s))
   \<and> (\<forall>x<fresh s. cells (snd (make_result_at h p compiled s)) x = cells s x)"
  by (simp add: make_result_at_def Let_def alloc_def overwrite_def
      split: option.splits sum.splits prod.splits)

lemma frame_refl: "frame s s"
  by (simp add: frame_def)

lemma frame_trans: "frame s s' \<Longrightarrow> frame s' s'' \<Longrightarrow> frame s s''"
  by (auto simp add: frame_def)

lemma frame_alloc: "frame s (snd (alloc c s))"
  by (simp add: frame_def alloc_def)

lemma frame_keeps: "keeps t \<Longrightarrow> frame s (snd (t input a s))"
  by (simp add: keeps_def)

lemma frame_make_result: "frame s (snd (make_result_at h p compiled s))"
  using make_result_at_frame [of s h p compiled] by (simp add: frame_def)

lemma frame_transpile_at: "keeps t \<Longrightarrow> frame s (snd (transpile_at t input a s))"
  using frame_keeps [of t s input a] by (auto simp add: transpile_at_def split: prod.splits)

lemma compile_promise_at_frame:
  assumes "keeps t"
  shows "frame s (snd (compile_promise_at h t this file s))"
proof (cases "its_isIgnored this (path file)")
  case True
  then show ?thesis by (simp add: compile_promise_at_def frame_refl)
next
  case False
  obtain a s1 where a: "alloc (TsOptions (path file) True (its_options this)) s = (a, s1)"
    by (cases "alloc (TsOptions (path file) True (its_options this)) s")
  obtain answer s2 where t: "t (data file) a s1 = (answer, s2)"
    by (cases "t (data file) a s1")
  from a have f1: "frame s s1"
    using frame_alloc [of s "TsOptions (path file) True (its_options this)"] by simp
  from t assms have f2: "frame s1 s2"
    using frame_keeps [of t s1 "data file" a] by simp
  show ?thesis
  proof (cases answer)
    case (Inl err)
    with False a t f1 f2 show ?thesis
      by (simp add: compile_promise_at_def) (rule frame_trans)
  next
    case (Inr compiled)
    obtain made s3 where m: "make_result_at h (path file) compiled s2 = (made, s3)"
      by (cases "make_result_at h (path file) compiled s2")
    then have "frame s2 s3"
      using frame_make_result [of s2 h "path file" compiled] by simp
    with f1 f2 have "frame s s3" by (blast intro: frame_trans)
    with False a t Inr m show ?thesis
      by (simp add: compile_promise_at_def Let_def)
  qed
qed

lemma compile_throw_at_frame:
  assumes "\<And>input a s. frame s (snd (m input a s))"
  shows "frame s (snd (compile_throw_at h m this file s))"
proof (cases "its_isIgnored this (path file)")
  case True
  then show ?thesis by (simp add: compile_throw_at_def frame_refl)
next
  case False
  obtain a s1 where a: "alloc (TsOptions (path file) True (its_options this)) s = (a, s1)"
    by (cases "alloc (TsOptions (path file) True (its_options this)) s")
  obtain answer s2 where t: "m (data file) a s1 = (answer, s2)"
    by (cases "m (data file) a s1")
  from a have f1: "frame s s1"
    using frame_alloc [of s "TsOptions (path file) True (its_options this)"] by simp
  from t have f2: "frame s1 s2"
    using assms [of s1 "data file" a] by simp
  from f1 f2 have f12: "frame s s2" by (rule frame_trans)
  show ?thesis
  proof (cases answer)
    case (Inl err)
    with False a t f12 show ?thesis
      by (simp add: compile_throw_at_def)
  next
    case (Inr compiled)
    obtain made s3 where mk: "make_result_at h (path file) compiled s2 = (made, s3)"
      by (cases "make_result_at h (path file) compiled s2")
    then have "frame s2 s3"
      using frame_make_result [of s2 h "path file" compiled] by simp
    with f12 have "frame s s3" by (rule frame_trans)
    with False a t Inr mk f12 show ?thesis
      by (simp add: compile_throw_at_def Let_def)
  qed
qed

lemma frame_options: "frame s s' \<Longrightarrow> a < fresh s \<Longrightarrow> options_of s' a = options_of s a"
  by (simp add: frame_def options_of_def)

lemma frame_the_adapter:
  "frame s s' \<Longrightarrow> its_options this < fresh s \<Longrightarrow> the_adapter this s' = the_adapter this s"
  by (simp add: the_adapter_def frame_options)

lemma handed_alloc:
  "its_options this < fresh s \<Longrightarrow>
   handed (snd (alloc (TsOptions p True (its_options this)) s))
          (fst (alloc (TsOptions p True (its_options this)) s))
     = Some \<lparr>fileName = p, reportDiagnostics = True,
             compilerOptions = options_of s (its_options this)\<rparr>"
  by (simp add: handed_def alloc_def options_of_def)

lemma compile_promise_at_outcome:
  assumes "its_options this < fresh s"
  shows "fst (compile_promise_at h t this file s) =
     (if its_isIgnored this (path file) then Resolve (Params file)
      else (case fst (t (data file) (fresh s)
                       (snd (alloc (TsOptions (path file) True (its_options this)) s))) of
              Inl err \<Rightarrow> Reject (Exception err)
            | Inr compiled \<Rightarrow>
                (let reportable = own_filter (the_adapter this s)
                       (filter (\<lambda>err. code err \<notin> ignoredErrors) (diagnostics compiled))
                 in if reportable \<noteq> []
                    then Reject (Message (join (map toMeaningfulMessage reportable) newline))
                    else (case make_result h (path file) compiled of
                            Inl err \<Rightarrow> Reject (Exception err)
                          | Inr result \<Rightarrow> Resolve (Result result)))))"
proof (cases "its_isIgnored this (path file)")
  case True
  then show ?thesis by (simp add: compile_promise_at_def)
next
  case False
  obtain s1 where a: "alloc (TsOptions (path file) True (its_options this)) s = (fresh s, s1)"
    by (simp add: alloc_def)
  obtain answer s2 where t: "t (data file) (fresh s) s1 = (answer, s2)"
    by (cases "t (data file) (fresh s) s1")
  show ?thesis
  proof (cases answer)
    case (Inl err)
    with False a t show ?thesis
      by (simp add: compile_promise_at_def)
  next
    case (Inr compiled)
    obtain made s3 where m: "make_result_at h (path file) compiled s2 = (made, s3)"
      by (cases "make_result_at h (path file) compiled s2")
    then have made: "made = make_result h (path file) compiled"
      using make_result_at_value [of h "path file" compiled s2] by simp
    have own: "own_filter (the_adapter this s2) = own_filter (the_adapter this s)"
      by (rule ext) (rule own_filter_the_adapter)
    from False a t Inr m show ?thesis
      by (simp add: compile_promise_at_def Let_def own made)
  qed
qed

lemma compile_throw_at_outcome:
  assumes "its_options this < fresh s"
  shows "fst (compile_throw_at h m this file s) =
     (if its_isIgnored this (path file) then Return (Params file)
      else (case fst (m (data file) (fresh s)
                       (snd (alloc (TsOptions (path file) True (its_options this)) s))) of
              Inl err \<Rightarrow> Throw (Exception err)
            | Inr compiled \<Rightarrow>
                (let diag = own_filter (the_adapter this s) (diagnostics compiled)
                 in if diag \<noteq> []
                    then Throw (Message (join (map toMeaningfulMessage diag) newline))
                    else (case make_result h (path file) compiled of
                            Inl err \<Rightarrow> Throw (Exception err)
                          | Inr result \<Rightarrow> Return (Result result)))))"
proof (cases "its_isIgnored this (path file)")
  case True
  then show ?thesis by (simp add: compile_throw_at_def)
next
  case False
  obtain s1 where a: "alloc (TsOptions (path file) True (its_options this)) s = (fresh s, s1)"
    by (simp add: alloc_def)
  obtain answer s2 where t: "m (data file) (fresh s) s1 = (answer, s2)"
    by (cases "m (data file) (fresh s) s1")
  show ?thesis
  proof (cases answer)
    case (Inl err)
    with False a t show ?thesis
      by (simp add: compile_throw_at_def)
  next
    case (Inr compiled)
    obtain made s3 where mk: "make_result_at h (path file) compiled s2 = (made, s3)"
      by (cases "make_result_at h (path file) compiled s2")
    then have made: "made = make_result h (path file) compiled"
      using make_result_at_value [of h "path file" compiled s2] by simp
    have own: "own_filter (the_adapter this s2) = own_filter (the_adapter this s)"
      by (rule ext) (rule own_filter_the_adapter)
    from False a t Inr mk show ?thesis
      by (simp add: compile_throw_at_def Let_def own made)
  qed
qed

lemma answer_after_frame:
  assumes "by_content t" and "frame s s'" and "its_options this < fresh s"
  shows "fst (t input (fresh s') (snd (alloc (TsOptions p True (its_options this)) s')))
       = fst (t input (fresh s) (snd (alloc (TsOptions p True (its_options this)) s)))"
proof -
  from assms(2,3) have later: "its_options this < fresh s'"
    by (simp add: frame_def)
  have before: "handed (snd (alloc (TsOptions p True (its_options this)) s)) (fresh s)
      = Some \<lparr>fileName = p, reportDiagnostics = True,
              compilerOptions = options_of s (its_options this)\<rparr>"
    using handed_alloc [OF assms(3), of p] by (simp only: alloc_simps(1))
  have after: "handed (snd (alloc (TsOptions p True (its_options this)) s')) (fresh s')
      = Some \<lparr>fileName = p, reportDiagnostics = True,
              compilerOptions = options_of s' (its_options this)\<rparr>"
    using handed_alloc [OF later, of p] by (simp only: alloc_simps(1))
  have "options_of s' (its_options this) = options_of s (its_options this)"
    using assms(2,3) by (rule frame_options)
  with before after
  have "handed (snd (alloc (TsOptions p True (its_options this)) s')) (fresh s')
      = handed (snd (alloc (TsOptions p True (its_options this)) s)) (fresh s)"
    by (simp only:)
  with assms(1) show ?thesis
    unfolding by_content_def by blast
qed

lemma fst_transpile_at:
  "fst (transpile_at t input a s) = map_sum id without_ignored (fst (t input a s))"
  by (simp add: transpile_at_def split: prod.splits)

lemma by_content_transpile_at:
  assumes "by_content t"
  shows "by_content (transpile_at t)"
  unfolding by_content_def
proof (intro allI impI)
  fix input a s a' s'
  assume "handed s a = handed s' a'"
  with assms have "fst (t input a s) = fst (t input a' s')"
    unfolding by_content_def by blast
  then show "fst (transpile_at t input a s) = fst (transpile_at t input a' s')"
    by (simp add: fst_transpile_at)
qed

lemma compile_promise_at_later:
  assumes "by_content t" and "frame s s'" and "its_options this < fresh s"
  shows "fst (compile_promise_at h t this file s') = fst (compile_promise_at h t this file s)"
proof -
  from assms(2,3) have later: "its_options this < fresh s'"
    by (simp add: frame_def)
  have same: "the_adapter this s' = the_adapter this s"
    using assms(2,3) by (rule frame_the_adapter)
  show ?thesis
    by (simp only: compile_promise_at_outcome [OF assms(3)] compile_promise_at_outcome [OF later]
        answer_after_frame [OF assms] same)
qed

lemma compile_throw_at_later:
  assumes "by_content m" and "frame s s'" and "its_options this < fresh s"
  shows "fst (compile_throw_at h m this file s') = fst (compile_throw_at h m this file s)"
proof -
  from assms(2,3) have later: "its_options this < fresh s'"
    by (simp add: frame_def)
  have same: "the_adapter this s' = the_adapter this s"
    using assms(2,3) by (rule frame_the_adapter)
  show ?thesis
    by (simp only: compile_throw_at_outcome [OF assms(3)] compile_throw_at_outcome [OF later]
        answer_after_frame [OF assms] same)
qed

lemma keeps_by_value: "keeps (by_value h)"
  by (simp add: keeps_def by_value_def frame_refl split: option.splits)

lemma by_content_by_value: "by_content (by_value h)"
  by (simp add: by_content_def by_value_def split: option.splits)

lemma by_value_answer:
  assumes "its_options this < fresh s"
  shows "fst (by_value h input (fresh s) (snd (alloc (TsOptions p True (its_options this)) s)))
       = transpileModule h input
           \<lparr>fileName = p, reportDiagnostics = True,
            compilerOptions = options_of s (its_options this)\<rparr>"
proof -
  have "handed (snd (alloc (TsOptions p True (its_options this)) s)) (fresh s)
      = Some \<lparr>fileName = p, reportDiagnostics = True,
              compilerOptions = options_of s (its_options this)\<rparr>"
    using handed_alloc [OF assms, of p] by (simp only: alloc_simps(1))
  then show ?thesis
    by (simp add: by_value_def)
qed

lemma the_adapter_fields:
  "isIgnored (the_adapter this s) = its_isIgnored this"
  "tsOptions (the_adapter this s) file =
     \<lparr>fileName = path file, reportDiagnostics = True,
      compilerOptions = options_of s (its_options this)\<rparr>"
  by (simp_all add: the_adapter_def tsOptions_def)

lemma filtering_host_fields:
  "transpileModule (filtering_host h) = transpile h"
  "make_result (filtering_host h) p compiled = make_result h p compiled"
  by (simp_all add: filtering_host_def make_result_host)

lemma compile_promise_at_by_value:
  assumes "its_options this < fresh s"
  shows "fst (compile_promise_at h (by_value h) this file s)
       = outcome (compile_promise h (the_adapter this s) file)"
  by (simp add: compile_promise_at_outcome [OF assms] compile_promise_def
      by_value_answer [OF assms] the_adapter_fields)

lemma compile_throw_at_by_value:
  assumes "its_options this < fresh s"
  shows "fst (compile_throw_at h (transpile_at (by_value h)) this file s)
       = outcome (compile_throw (filtering_host h) (the_adapter this s) file)"
  by (simp add: compile_throw_at_outcome [OF assms] compile_throw_def fst_transpile_at
      by_value_answer [OF assms] the_adapter_fields filtering_host_fields transpile_def
      Let_def cong: if_cong sum.case_cong)

lemma syntax_error_promise:
  "outcome (compile_promise (node (Inr syntax_error)) app_adapter
      \<lparr>path = ''a.ts'', data = ''var x = ;''\<rparr>) =
     Reject (Message ''Error 1109: Expression expected. (Line: 2, Col: 3)'')"
  by (simp add: compile_promise_def app_adapter_def literal_matcher_def node_fields
      syntax_error_def own_filter_def message_1109 ignoredErrors_def)

lemma syntax_error_throw:
  "outcome (compile_throw (filtering_host (node (Inr syntax_error))) app_adapter
      \<lparr>path = ''a.ts'', data = ''var x = ;''\<rparr>) =
     Throw (Message ''Error 1109: Expression expected. (Line: 2, Col: 3)'')"
  by (simp add: compile_throw_def app_adapter_def literal_matcher_def node_fields
      filtering_host_fields transpile_def without_ignored_def
      syntax_error_def own_filter_def message_1109 ignoredErrors_def)

lemma app_this_adapter: "the_adapter app_this app_store = app_adapter"
  by (simp add: the_adapter_def app_this_def app_store_def options_of_def app_adapter_def)

text \<open>
  C9. No \<^verbatim>\<open>compile\<close> call changes the adapter state. For every transpile operation that
  keeps its contract (it copies the options it is handed by reference and writes to no
  object that exists; its answer is decided by the source text and the options), and for
  every instance whose options object is in the store: after the call every object that
  existed, the options object among them, is as it was; the adapter state (options
  mapping, ignore predicate, pattern, filter state) is the one before the call; and a later
  call has the outcome it would have had without the earlier one. In the throw-based
  variant the call goes through the module \<^verbatim>\<open>./transpile\<close>. The writes of \<^verbatim>\<open>compile\<close> itself
  (to \<^verbatim>\<open>tsOptions\<close>, \<^verbatim>\<open>result\<close> and the parsed source map) go to objects it has just made.
\<close>

theorem C9_compile_leaves_the_instance:
  assumes "keeps t" and "by_content t" and "its_options this < fresh s"
  shows "frame s (snd (compile_promise_at h t this file s))
     \<and> the_adapter this (snd (compile_promise_at h t this file s)) = the_adapter this s
     \<and> fst (compile_promise_at h t this later (snd (compile_promise_at h t this file s)))
         = fst (compile_promise_at h t this later s)
     \<and> frame s (snd (compile_throw_at h (transpile_at t) this file s))
     \<and> the_adapter this (snd (compile_throw_at h (transpile_at t) this file s)) = the_adapter this s
     \<and> fst (compile_throw_at h (transpile_at t) this later
              (snd (compile_throw_at h (transpile_at t) this file s)))
         = fst (compile_throw_at h (transpile_at t) this later s)"
proof -
  have p: "frame s (snd (compile_promise_at h t this file s))"
    using assms(1) by (rule compile_promise_at_frame)
  have q: "frame s (snd (compile_throw_at h (transpile_at t) this file s))"
    using assms(1) by (intro compile_throw_at_frame frame_transpile_at)
  from p q assms show ?thesis
    by (simp add: frame_the_adapter compile_promise_at_later compile_throw_at_later
        by_content_transpile_at)
qed

text \<open>
  The sample instance in the sample store, on a transpile operation that reads the options
  through the reference and reports a syntax error: both variants fail with its message,
  the options object at address 0 is as it was, and the second call fails as the first.
\<close>

theorem C9_witness:
  "keeps (by_value (node (Inr syntax_error)))
   \<and> by_content (by_value (node (Inr syntax_error)))
   \<and> its_options app_this < fresh app_store
   \<and> the_adapter app_this app_store = app_adapter
   \<and> fst (compile_promise_at (node (Inr syntax_error)) (by_value (node (Inr syntax_error)))
          app_this \<lparr>path = ''a.ts'', data = ''var x = ;''\<rparr> app_store) =
       Reject (Message ''Error 1109: Expression expected. (Line: 2, Col: 3)'')
   \<and> cells (snd (compile_promise_at (node (Inr syntax_error)) (by_value (node (Inr syntax_error)))
          app_this \<lparr>path = ''a.ts'', data = ''var x = ;''\<rparr> app_store)) 0 =
       Some (Plain (JObj (options app_adapter)))
   \<and> the_adapter app_this
         (snd (compile_promise_at (node (Inr syntax_error)) (by_value (node (Inr syntax_error)))
            app_this \<lparr>path = ''a.ts'', data = ''var x = ;''\<rparr> app_store)) = app_adapter
   \<and> fst (compile_promise_at (node (Inr syntax_error)) (by_value (node (Inr syntax_error)))
          app_this \<lparr>path = ''a.ts'', data = ''var x = ;''\<rparr>
          (snd (compile_promise_at (node (Inr syntax_error)) (by_value (node (Inr syntax_error)))
             app_this \<lparr>path = ''a.ts'', data = ''var x = ;''\<rparr> app_store))) =
       Reject (Message ''Error 1109: Expression expected. (Line: 2, Col: 3)'')
   \<and> fst (compile_throw_at (node (Inr syntax_error))
          (transpile_at (by_value (node (Inr syntax_error))))
          app_this \<lparr>path = ''a.ts'', data = ''var x = ;''\<rparr> app_store) =
       Throw (Message ''Error 1109: Expression expected. (Line: 2, Col: 3)'')
   \<and> the_adapter app_this
         (snd (compile_throw_at (node (Inr syntax_error))
            (transpile_at (by_value (node (Inr syntax_error))))
            app_this \<lparr>path = ''a.ts'', data = ''var x = ;''\<rparr> app_store)) = app_adapter"
proof -
  let ?N = "node (Inr syntax_error)"
  let ?f = "\<lparr>path = ''a.ts'', data = ''var x = ;''\<rparr>"
  let ?s' = "snd (compile_promise_at ?N (by_value ?N) app_this ?f app_store)"
  have allocated: "its_options app_this < fresh app_store"
    by (simp add: app_this_def app_store_def)
  note kept = C9_compile_leaves_the_instance
    [OF keeps_by_value by_content_by_value allocated, of ?N ?N ?f ?f]
  from kept have "frame app_store ?s'" by blast
  then have "cells ?s' 0 = cells app_store 0"
    by (simp add: frame_def app_store_def)
  then have cell: "cells ?s' 0 = Some (Plain (JObj (options app_adapter)))"
    by (simp add: app_store_def)
  have first: "fst (compile_promise_at ?N (by_value ?N) app_this ?f app_store) =
       Reject (Message ''Error 1109: Expression expected. (Line: 2, Col: 3)'')"
    by (simp only: compile_promise_at_by_value [OF allocated] app_this_adapter syntax_error_promise)
  have thrown: "fst (compile_throw_at ?N (transpile_at (by_value ?N)) app_this ?f app_store) =
       Throw (Message ''Error 1109: Expression expected. (Line: 2, Col: 3)'')"
    by (simp only: compile_throw_at_by_value [OF allocated] app_this_adapter syntax_error_throw)
  from kept cell first thrown allocated keeps_by_value [of ?N] by_content_by_value [of ?N]
  show ?thesis
    by (simp only: app_this_adapter simp_thms)
qed

section \<open>The fixed ignore-set\<close>

text \<open>
  \<^verbatim>\<open>index.js\<close> removes the diagnostics of the fixed set in \<^verbatim>\<open>compile\<close>; the throw-based
  variant has them removed by the module \<^verbatim>\<open>./transpile\<close> that it calls.
\<close>

lemma own_filter_outside:
  "\<forall>d \<in> set (own_filter this (filter (\<lambda>err. code err \<notin> ignoredErrors) ds)).
     code d \<notin> ignoredErrors"
  using own_filter_subset [of this "filter (\<lambda>err. code err \<notin> ignoredErrors) ds"] by auto

lemma compile_promise_message:
  assumes "outcome (compile_promise h this file) = Reject (Message m)"
  shows "\<exists>compiled. transpileModule h (data file) (tsOptions this file) = Inr compiled
      \<and> own_filter this (filter (\<lambda>err. code err \<notin> ignoredErrors) (diagnostics compiled)) \<noteq> []
      \<and> m = join (map toMeaningfulMessage
                (own_filter this (filter (\<lambda>err. code err \<notin> ignoredErrors) (diagnostics compiled))))
              newline"
  using assms
  by (auto simp add: compile_promise_def Let_def split: if_splits sum.splits)

lemma compile_throw_message:
  assumes "outcome (compile_throw (filtering_host h) this file) = Throw (Message m)"
  shows "\<exists>compiled. transpileModule h (data file) (tsOptions this file) = Inr compiled
      \<and> own_filter this (filter (\<lambda>err. code err \<notin> ignoredErrors) (diagnostics compiled)) \<noteq> []
      \<and> m = join (map toMeaningfulMessage
                (own_filter this (filter (\<lambda>err. code err \<notin> ignoredErrors) (diagnostics compiled))))
              newline"
proof (cases "transpileModule h (data file) (tsOptions this file)")
  case (Inl err)
  with assms show ?thesis
    by (simp add: compile_throw_def filtering_host_fields transpile_def split: if_splits)
next
  case (Inr compiled)
  with assms show ?thesis
    by (auto simp add: compile_throw_def filtering_host_fields transpile_def without_ignored_def
        Let_def split: if_splits sum.splits)
qed

lemma missing_module_promise:
  "outcome (compile_promise (node (Inr missing_module)) app_adapter
      \<lparr>path = ''a.ts'', data = ''import b = require(1);''\<rparr>) =
     Resolve (Result \<lparr>data' = ''var b = require(1);'' @ newline, map' = None\<rparr>)"
  by (simp add: compile_promise_def app_adapter_def literal_matcher_def node_fields
      missing_module_def own_filter_def ignoredErrors_def make_result_def)

lemma missing_module_throw:
  "outcome (compile_throw (filtering_host (node (Inr missing_module))) app_adapter
      \<lparr>path = ''a.ts'', data = ''import b = require(1);''\<rparr>) =
     Return (Result \<lparr>data' = ''var b = require(1);'' @ newline, map' = None\<rparr>)"
  by (simp add: compile_throw_def app_adapter_def literal_matcher_def node_fields
      filtering_host_fields transpile_def without_ignored_def
      missing_module_def own_filter_def ignoredErrors_def make_result_def)

text \<open>
  C2. A diagnostic whose code is in the fixed ignore-set never makes a \<^verbatim>\<open>compile\<close> call fail,
  also when no \<^verbatim>\<open>ignoreErrors\<close> option was configured. In both variants, for every host,
  instance and file: when every diagnostic that the transpile operation returns has a code of
  the fixed set, the call does not fail with a diagnostic message; and whenever a call fails
  with a message, the message is the joined list of the messages of diagnostics that are all
  outside the fixed set. The throw-based variant runs on the module \<^verbatim>\<open>./transpile\<close>; on that
  module the promise-returning variant behaves as on the transpile operation itself.
\<close>

theorem C2_fixed_set_never_fails:
  "(transpileModule h (data file) (tsOptions this file) = Inr compiled
      \<and> (\<forall>d \<in> set (diagnostics compiled). code d \<in> ignoredErrors) \<longrightarrow>
        (\<forall>m. outcome (compile_promise h this file) \<noteq> Reject (Message m))
      \<and> (\<forall>m. outcome (compile_throw (filtering_host h) this file) \<noteq> Throw (Message m)))
   \<and> (outcome (compile_promise h this file) = Reject (Message m)
        \<or> outcome (compile_throw (filtering_host h) this file) = Throw (Message m) \<longrightarrow>
        (\<exists>compiled reportable.
           transpileModule h (data file) (tsOptions this file) = Inr compiled
           \<and> reportable = own_filter this
                 (filter (\<lambda>err. code err \<notin> ignoredErrors) (diagnostics compiled))
           \<and> reportable \<noteq> []
           \<and> (\<forall>d \<in> set reportable. code d \<notin> ignoredErrors)
           \<and> m = join (map toMeaningfulMessage reportable) newline))
   \<and> compile_promise (filtering_host h) this file = compile_promise h this file"
proof (intro conjI impI)
  assume only: "transpileModule h (data file) (tsOptions this file) = Inr compiled
      \<and> (\<forall>d \<in> set (diagnostics compiled). code d \<in> ignoredErrors)"
  then have none: "filter (\<lambda>err. code err \<notin> ignoredErrors) (diagnostics compiled) = []"
    by (simp add: all_ignored_filter)
  show "\<forall>m. outcome (compile_promise h this file) \<noteq> Reject (Message m)"
  proof
    fix m
    show "outcome (compile_promise h this file) \<noteq> Reject (Message m)"
    proof
      assume "outcome (compile_promise h this file) = Reject (Message m)"
      from compile_promise_message [OF this] only none show False
        by (simp add: own_filter_nil)
    qed
  qed
  show "\<forall>m. outcome (compile_throw (filtering_host h) this file) \<noteq> Throw (Message m)"
  proof
    fix m
    show "outcome (compile_throw (filtering_host h) this file) \<noteq> Throw (Message m)"
    proof
      assume "outcome (compile_throw (filtering_host h) this file) = Throw (Message m)"
      from compile_throw_message [OF this] only none show False
        by (simp add: own_filter_nil)
    qed
  qed
next
  assume "outcome (compile_promise h this file) = Reject (Message m)
        \<or> outcome (compile_throw (filtering_host h) this file) = Throw (Message m)"
  then have "\<exists>compiled. transpileModule h (data file) (tsOptions this file) = Inr compiled
      \<and> own_filter this (filter (\<lambda>err. code err \<notin> ignoredErrors) (diagnostics compiled)) \<noteq> []
      \<and> m = join (map toMeaningfulMessage
                (own_filter this (filter (\<lambda>err. code err \<notin> ignoredErrors) (diagnostics compiled))))
              newline"
  proof
    assume "outcome (compile_promise h this file) = Reject (Message m)"
    then show ?thesis by (rule compile_promise_message)
  next
    assume "outcome (compile_throw (filtering_host h) this file) = Throw (Message m)"
    then show ?thesis by (rule compile_throw_message)
  qed
  then obtain compiled where
    "transpileModule h (data file) (tsOptions this file) = Inr compiled"
    "own_filter this (filter (\<lambda>err. code err \<notin> ignoredErrors) (diagnostics compiled)) \<noteq> []"
    "m = join (map toMeaningfulMessage
                (own_filter this (filter (\<lambda>err. code err \<notin> ignoredErrors) (diagnostics compiled))))
              newline"
    by blast
  with own_filter_outside [of this "diagnostics compiled"]
  show "\<exists>compiled reportable.
           transpileModule h (data file) (tsOptions this file) = Inr compiled
           \<and> reportable = own_filter this
                 (filter (\<lambda>err. code err \<notin> ignoredErrors) (diagnostics compiled))
           \<and> reportable \<noteq> []
           \<and> (\<forall>d \<in> set reportable. code d \<notin> ignoredErrors)
           \<and> m = join (map toMeaningfulMessage reportable) newline"
    by blast
next
  show "compile_promise (filtering_host h) this file = compile_promise h this file"
    by (rule compile_promise_filtering)
qed

text \<open>
  A transpile answer whose only diagnostic has the code 2307, on an instance with no
  \<^verbatim>\<open>ignoreErrors\<close>: both variants succeed with the emitted text.
\<close>

theorem C2_witness:
  "transpileModule (node (Inr missing_module)) (data \<lparr>path = ''a.ts'', data = ''import b = require(1);''\<rparr>)
       (tsOptions app_adapter \<lparr>path = ''a.ts'', data = ''import b = require(1);''\<rparr>) = Inr missing_module
   \<and> map code (diagnostics missing_module) = [2307] \<and> 2307 \<in> ignoredErrors
   \<and> \<not> ignoreAllErrors app_adapter \<and> ignoreErrors app_adapter = None
   \<and> (\<forall>m. outcome (compile_promise (node (Inr missing_module)) app_adapter
              \<lparr>path = ''a.ts'', data = ''import b = require(1);''\<rparr>) \<noteq> Reject (Message m))
   \<and> (\<forall>m. outcome (compile_throw (filtering_host (node (Inr missing_module))) app_adapter
              \<lparr>path = ''a.ts'', data = ''import b = require(1);''\<rparr>) \<noteq> Throw (Message m))
   \<and> outcome (compile_promise (node (Inr missing_module)) app_adapter
          \<lparr>path = ''a.ts'', data = ''import b = require(1);''\<rparr>) =
       Resolve (Result \<lparr>data' = ''var b = require(1);'' @ newline, map' = None\<rparr>)
   \<and> outcome (compile_throw (filtering_host (node (Inr missing_module))) app_adapter
          \<lparr>path = ''a.ts'', data = ''import b = require(1);''\<rparr>) =
       Return (Result \<lparr>data' = ''var b = require(1);'' @ newline, map' = None\<rparr>)"
proof -
  let ?f = "\<lparr>path = ''a.ts'', data = ''import b = require(1);''\<rparr>"
  let ?N = "node (Inr missing_module)"
  have answer: "transpileModule ?N (data ?f) (tsOptions app_adapter ?f) = Inr missing_module"
    by (simp add: node_fields)
  have fixed: "\<forall>d \<in> set (diagnostics missing_module). code d \<in> ignoredErrors"
    by (simp add: missing_module_def ignoredErrors_def)
  have codes: "map code (diagnostics missing_module) = [2307]" "2307 \<in> ignoredErrors"
    by (simp_all add: missing_module_def ignoredErrors_def)
  have plain: "\<not> ignoreAllErrors app_adapter" "ignoreErrors app_adapter = None"
    by (simp_all add: app_adapter_def)
  from C2_fixed_set_never_fails [of ?N ?f app_adapter missing_module] answer fixed
  have "(\<forall>m. outcome (compile_promise ?N app_adapter ?f) \<noteq> Reject (Message m))
      \<and> (\<forall>m. outcome (compile_throw (filtering_host ?N) app_adapter ?f) \<noteq> Throw (Message m))"
    by blast
  with answer codes plain missing_module_promise missing_module_throw
  show ?thesis by simp
qed

section \<open>The two variants\<close>

text \<open>
  The constructors do not call the transpile operation, so the throw-based constructor
  builds the same instance whatever module it runs on.
\<close>

lemma ToNumber_host: "ToNumber (h\<lparr>transpileModule := t\<rparr>) v = ToNumber h v"
  by (cases v) simp_all

lemma resolveEnum_loop_host:
  "resolveEnum_loop (h\<lparr>transpileModule := t\<rparr>) s opts keys = resolveEnum_loop h s opts keys"
  by (induction keys) simp_all

lemma resolveEnum_host:
  "resolveEnum (h\<lparr>transpileModule := t\<rparr>) choice opts = resolveEnum h choice opts"
  by (simp add: resolveEnum_def isNaN_def ToNumber_host resolveEnum_loop_host
      split: jsval.splits)

lemma normalize_host: "normalize (h\<lparr>transpileModule := t\<rparr>) opts = normalize h opts"
  by (simp add: normalize_def resolveEnum_host)

lemma make_isIgnored_host:
  "make_isIgnored (h\<lparr>transpileModule := t\<rparr>) po c = make_isIgnored h po c"
  by (simp add: make_isIgnored_def split: option.splits)

lemma finish_construction_host:
  "finish_construction (h\<lparr>transpileModule := t\<rparr>) c po ext opts = finish_construction h c po ext opts"
  by (simp add: finish_construction_def make_isIgnored_host)

lemma getTSconfig_host: "getTSconfig (h\<lparr>transpileModule := t\<rparr>) c = getTSconfig h c"
  by (simp add: getTSconfig_def split: option.splits)

lemma construct_throw_host:
  "construct_throw (h\<lparr>transpileModule := t\<rparr>) c p loaded = construct_throw h c p loaded"
  by (simp add: construct_throw_def normalize_host finish_construction_host)

lemma constructor_throw_host:
  "constructor_throw (filtering_host h) arg = constructor_throw h arg"
proof -
  have "construct_throw (h\<lparr>transpileModule := transpile h\<rparr>) c p
      = construct_throw h c p" for c p
    by (rule ext) (rule construct_throw_host)
  then show ?thesis
    by (simp add: constructor_throw_def filtering_host_def getTSconfig_host
        split: option.splits)
qed

lemma finish_construction_ext:
  "finish_construction h c po (Some x) opts =
     map_sum id (\<lambda>a. a\<lparr>targetExtension := Some x\<rparr>) (finish_construction h c po None opts)"
  by (simp add: finish_construction_def and_then_def Let_def split: sum.splits)

lemma constructors_agree:
  assumes "plugins c = Some p" and "typescript p = None"
    and "paths c = Some q" and "root' q = Some r" and "r \<noteq> []"
  shows "(\<forall>e. constructor_promise h (Some c) = Inl e \<longrightarrow> constructor_throw h (Some c) = Inl e)
     \<and> (\<forall>a. constructor_promise h (Some c) = Inr a \<longrightarrow>
          (\<exists>x. constructor_throw h (Some c) = Inr (a\<lparr>targetExtension := Some x\<rparr>)))"
proof -
  define loaded where "loaded = getTsconfig h (Some r)"
  have same_options: "options_throw p = options_promise c"
    using assms(1,2) by (simp add: options_throw_def options_promise_def)
  have promise: "constructor_promise h (Some c) = construct_promise h c loaded"
    using assms(3,4) by (simp add: constructor_promise_def loaded_def)
  have "getTSconfig h c = Inr loaded"
    using assms(3,4,5) by (simp add: getTSconfig_def getTsconfig_def loaded_def split: sum.splits)
  then have throw: "constructor_throw h (Some c) = construct_throw h c p loaded"
    using assms(1) by (simp add: constructor_throw_def and_then_def)
  show ?thesis
  proof (cases "writable_object loaded")
    case (Inl e)
    then show ?thesis
      by (simp add: promise throw construct_promise_def construct_throw_def and_then_def)
  next
    case (Inr this_options)
    show ?thesis
    proof (cases "normalize h (overlay (options_promise c) this_options)")
      case (Inl e)
      with Inr show ?thesis
        by (simp add: promise throw construct_promise_def construct_throw_def and_then_def
            same_options Let_def)
    next
      case opts: (Inr opts)
      show ?thesis
      proof (cases "finish_construction h c (options_promise c) None opts")
        case (Inl e)
        with Inr opts show ?thesis
          by (simp add: promise throw construct_promise_def construct_throw_def and_then_def
              same_options Let_def finish_construction_ext)
      next
        case a: (Inr a)
        with Inr opts show ?thesis
          by (auto simp add: promise throw construct_promise_def construct_throw_def and_then_def
              same_options Let_def finish_construction_ext)
      qed
    qed
  qed
qed

lemma own_filter_targetExtension: "own_filter (a\<lparr>targetExtension := x\<rparr>) = own_filter a"
  by (rule ext) (simp add: own_filter_def)

lemma compile_promise_targetExtension:
  "calls (compile_promise h (a\<lparr>targetExtension := x\<rparr>) file) = calls (compile_promise h a file)"
  "outcome (compile_promise h (a\<lparr>targetExtension := x\<rparr>) file) = outcome (compile_promise h a file)"
  by (simp_all add: compile_promise_def tsOptions_def own_filter_targetExtension
      cong: sum.case_cong if_cong)

lemma compiles_agree:
  "calls (compile_promise h a file)
     = calls (compile_throw (filtering_host h) (a\<lparr>targetExtension := x\<rparr>) file)
   \<and> outcome (compile_promise h a file)
     = settle (outcome (compile_throw (filtering_host h) (a\<lparr>targetExtension := x\<rparr>) file))"
proof -
  have "compile_promise h (a\<lparr>targetExtension := x\<rparr>) file
      = settled (compile_throw (filtering_host h) (a\<lparr>targetExtension := x\<rparr>) file)"
    by (rule promise_is_throw_filtered)
  then have "calls (compile_promise h (a\<lparr>targetExtension := x\<rparr>) file)
      = calls (compile_throw (filtering_host h) (a\<lparr>targetExtension := x\<rparr>) file)"
    "outcome (compile_promise h (a\<lparr>targetExtension := x\<rparr>) file)
      = settle (outcome (compile_throw (filtering_host h) (a\<lparr>targetExtension := x\<rparr>) file))"
    by (simp_all add: settled_def)
  then show ?thesis
    by (simp add: compile_promise_targetExtension)
qed

lemma finish_app_on:
  "conventions c = Some \<lparr>vendor = JStr ''vendor/jquery.ts''\<rparr> \<Longrightarrow> sourceMaps c = JBool False \<Longrightarrow>
   finish_construction (node r) c [] ext
     [(''target'', JNum (Num 2)), (''module'', JNum (Num 1)), (''jsx'', JNum (Num 1)),
      (''emitDecoratorMetadata'', JBool True), (''experimentalDecorators'', JBool True),
      (''noEmitOnError'', JBool False)] = Inr (app_adapter\<lparr>targetExtension := ext\<rparr>)"
  by (simp add: finish_construction_def make_isIgnored_def node_fields
      obj_get_def and_then_def app_adapter_def)

lemma typescript_promise:
  "constructor_promise (node r) (Some typescript_config) = Inr app_adapter"
proof -
  have "options_promise typescript_config = []"
    "paths typescript_config = Some \<lparr>root' = Some ''/app''\<rparr>"
    "conventions typescript_config = Some \<lparr>vendor = JStr ''vendor/jquery.ts''\<rparr>"
    "sourceMaps typescript_config = JBool False"
    by (simp_all add: options_promise_def typescript_config_def app_config_def)
  then show ?thesis
    by (simp add: constructor_promise_def construct_promise_def getTsconfig_app overlay_nothing
        normalize_app finish_app_on and_then_def app_adapter_def)
qed

lemma typescript_throw:
  "constructor_throw (node r) (Some typescript_config) =
     Inr (app_adapter\<lparr>ignoreAllErrors := True, targetExtension := Some ''js''\<rparr>)"
proof -
  let ?p = "\<lparr>typescript = Some [(''ignoreErrors'', JBool True)], brunchTypescript = None\<rparr>"
  have config: "plugins typescript_config = Some ?p"
    "options_throw ?p = [(''ignoreErrors'', JBool True)]"
    "conventions typescript_config = Some \<lparr>vendor = JStr ''vendor/jquery.ts''\<rparr>"
    "sourceMaps typescript_config = JBool False"
    by (simp_all add: options_throw_def typescript_config_def app_config_def)
  have loaded: "getTSconfig (node r) typescript_config = Inr (JObj [(''target'', JStr ''es2015'')])"
    by (simp add: getTSconfig_def typescript_config_def app_config_def node_fields node_require
        and_then_def obj_get_def)
  have merged: "overlay [(''ignoreErrors'', JBool True)] [(''target'', JStr ''es2015'')]
      = [(''target'', JStr ''es2015''), (''ignoreErrors'', JBool True)]"
    by (simp add: overlay_def Object_keys_def obj_get_def)
  have normal: "normalize (node r) [(''target'', JStr ''es2015''), (''ignoreErrors'', JBool True)] =
     Inr [(''target'', JNum (Num 2)), (''ignoreErrors'', JBool True), (''module'', JNum (Num 1)),
          (''jsx'', JNum (Num 1)), (''emitDecoratorMetadata'', JBool True),
          (''experimentalDecorators'', JBool True), (''noEmitOnError'', JBool False)]"
    by (simp add: normalize_def obj_get_def resolveEnum_undefined resolve_es2015 node_fields
        and_then_def defaultValue_def)
  have finish: "finish_construction (node r) typescript_config [(''ignoreErrors'', JBool True)]
      (Some ''js'')
      [(''target'', JNum (Num 2)), (''ignoreErrors'', JBool True), (''module'', JNum (Num 1)),
       (''jsx'', JNum (Num 1)), (''emitDecoratorMetadata'', JBool True),
       (''experimentalDecorators'', JBool True), (''noEmitOnError'', JBool False)]
      = Inr (app_adapter\<lparr>ignoreAllErrors := True, targetExtension := Some ''js''\<rparr>)"
    by (simp add: finish_construction_def make_isIgnored_def config node_fields
        obj_get_def and_then_def app_adapter_def Let_def)
  show ?thesis
    by (simp add: constructor_throw_def construct_throw_def config loaded merged normal finish
        and_then_def obj_get_def)
qed

lemma three_errors_promise:
  "outcome (compile_promise (node (Inr three_errors)) app_adapter
      \<lparr>path = ''a.ts'', data = ''var x = ;''\<rparr>) =
     Reject (Message (''Error 1109: Expression expected. (Line: 2, Col: 3)'' @ newline
                      @ ''Error 1005: ; expected. (No line map)''))"
  by (simp add: compile_promise_def app_adapter_def literal_matcher_def node_fields
      three_errors_def own_filter_def message_1109 message_1005 ignoredErrors_def)

lemma settle_Reject: "settle c = Reject r \<Longrightarrow> c = Throw r"
  by (cases c) simp_all

text \<open>
  C8, as stated, fails: the two variants are not identical for every configuration. The
  throw-based constructor reads the plugin options under \<^verbatim>\<open>config.plugins.typescript\<close> first,
  the promise-returning one under \<^verbatim>\<open>config.plugins.brunchTypescript\<close> only. With the
  configuration \<^verbatim>\<open>plugins: {typescript: {ignoreErrors: true}}\<close> and a file for which the
  transpile operation reports the syntax error 1109, the promise-returning variant ignores the
  option and rejects with the message, while the throw-based variant suppresses every
  diagnostic and returns the result. The code 1109 is outside the fixed set.
\<close>

theorem C8_counterexample:
  "constructor_promise (node (Inr syntax_error)) (Some typescript_config) = Inr app_adapter
   \<and> constructor_throw (filtering_host (node (Inr syntax_error))) (Some typescript_config) =
       Inr (app_adapter\<lparr>ignoreAllErrors := True, targetExtension := Some ''js''\<rparr>)
   \<and> outcome (compile_promise (node (Inr syntax_error)) app_adapter
          \<lparr>path = ''a.ts'', data = ''var x = ;''\<rparr>) =
       Reject (Message ''Error 1109: Expression expected. (Line: 2, Col: 3)'')
   \<and> outcome (compile_throw (filtering_host (node (Inr syntax_error)))
          (app_adapter\<lparr>ignoreAllErrors := True, targetExtension := Some ''js''\<rparr>)
          \<lparr>path = ''a.ts'', data = ''var x = ;''\<rparr>) =
       Return (Result \<lparr>data' = ''var x = ;'' @ newline, map' = None\<rparr>)"
proof -
  have "outcome (compile_throw (filtering_host (node (Inr syntax_error)))
          (app_adapter\<lparr>ignoreAllErrors := True, targetExtension := Some ''js''\<rparr>)
          \<lparr>path = ''a.ts'', data = ''var x = ;''\<rparr>) =
       Return (Result \<lparr>data' = ''var x = ;'' @ newline, map' = None\<rparr>)"
    by (simp add: compile_throw_def app_adapter_def literal_matcher_def node_fields
        filtering_host_fields transpile_def without_ignored_def syntax_error_def own_filter_def
        make_result_def)
  then show ?thesis
    by (simp add: typescript_promise typescript_throw constructor_throw_host syntax_error_promise)
qed

text \<open>
  C8, amended. For every configuration that has \<^verbatim>\<open>config.plugins\<close> without an entry
  \<^verbatim>\<open>typescript\<close> and a non-empty \<^verbatim>\<open>config.paths.root\<close>, on every host: a construction
  that fails in the promise-returning variant fails with the same error in the throw-based
  one; a construction that succeeds gives the same instance in both, the throw-based one
  with the additional field \<^verbatim>\<open>targetExtension\<close>; and then for every file the two
  \<^verbatim>\<open>compile\<close> make the same calls of the transpile operation and have the same outcome
  aside from the calling convention: the same result, the same joined failure message, the
  same propagated error. The throw-based variant runs on the module \<^verbatim>\<open>./transpile\<close>.
\<close>

theorem C8_amended:
  assumes "plugins c = Some p" and "typescript p = None"
    and "paths c = Some q" and "root' q = Some r" and "r \<noteq> []"
  shows "(\<forall>e. constructor_promise h (Some c) = Inl e \<longrightarrow>
            constructor_throw (filtering_host h) (Some c) = Inl e)
     \<and> (\<forall>a. constructor_promise h (Some c) = Inr a \<longrightarrow>
          (\<exists>x. constructor_throw (filtering_host h) (Some c) = Inr (a\<lparr>targetExtension := Some x\<rparr>)
             \<and> (\<forall>file.
                  calls (compile_promise h a file)
                    = calls (compile_throw (filtering_host h) (a\<lparr>targetExtension := Some x\<rparr>) file)
                  \<and> outcome (compile_promise h a file)
                    = settle (outcome (compile_throw (filtering_host h)
                                (a\<lparr>targetExtension := Some x\<rparr>) file)))))"
  using constructors_agree [OF assms] compiles_agree
  by (simp only: constructor_throw_host) blast

text \<open>
  The sample configuration, with a transpile operation that reports two errors outside the
  fixed set: both constructions succeed and both calls fail with the same two-line message.
\<close>

theorem C8_witness:
  "plugins app_config = Some \<lparr>typescript = None, brunchTypescript = None\<rparr>
   \<and> typescript \<lparr>typescript = None, brunchTypescript = None\<rparr> = None
   \<and> paths app_config = Some \<lparr>root' = Some ''/app''\<rparr>
   \<and> root' \<lparr>root' = Some ''/app''\<rparr> = Some ''/app'' \<and> ''/app'' \<noteq> []
   \<and> constructor_promise (node (Inr three_errors)) (Some app_config) = Inr app_adapter
   \<and> constructor_throw (filtering_host (node (Inr three_errors))) (Some app_config) =
       Inr (app_adapter\<lparr>targetExtension := Some ''js''\<rparr>)
   \<and> outcome (compile_promise (node (Inr three_errors)) app_adapter
          \<lparr>path = ''a.ts'', data = ''var x = ;''\<rparr>) =
       Reject (Message (''Error 1109: Expression expected. (Line: 2, Col: 3)'' @ newline
                        @ ''Error 1005: ; expected. (No line map)''))
   \<and> outcome (compile_throw (filtering_host (node (Inr three_errors)))
          (app_adapter\<lparr>targetExtension := Some ''js''\<rparr>)
          \<lparr>path = ''a.ts'', data = ''var x = ;''\<rparr>) =
       Throw (Message (''Error 1109: Expression expected. (Line: 2, Col: 3)'' @ newline
                       @ ''Error 1005: ; expected. (No line map)''))"
proof -
  let ?N = "node (Inr three_errors)"
  let ?f = "\<lparr>path = ''a.ts'', data = ''var x = ;''\<rparr>"
  let ?p = "\<lparr>typescript = None, brunchTypescript = None\<rparr>"
  let ?q = "\<lparr>root' = Some ''/app''\<rparr>"
  have config: "plugins app_config = Some ?p" "typescript ?p = None"
    "paths app_config = Some ?q" "root' ?q = Some ''/app''" "''/app'' \<noteq> []"
    by (simp_all add: app_config_def)
  have built: "constructor_promise ?N (Some app_config) = Inr app_adapter"
    by (rule app_promise)
  have built_throw: "constructor_throw (filtering_host ?N) (Some app_config) =
       Inr (app_adapter\<lparr>targetExtension := Some ''js''\<rparr>)"
    by (simp only: constructor_throw_host app_throw)
  from C8_amended [OF config, of ?N] built obtain x where
    x: "constructor_throw (filtering_host ?N) (Some app_config) =
          Inr (app_adapter\<lparr>targetExtension := Some x\<rparr>)"
    and same: "outcome (compile_promise ?N app_adapter ?f)
        = settle (outcome (compile_throw (filtering_host ?N)
                    (app_adapter\<lparr>targetExtension := Some x\<rparr>) ?f))"
    by blast
  from x built_throw have "app_adapter\<lparr>targetExtension := Some x\<rparr>
      = app_adapter\<lparr>targetExtension := Some ''js''\<rparr>"
    by simp
  with same three_errors_promise
  have "settle (outcome (compile_throw (filtering_host ?N)
                    (app_adapter\<lparr>targetExtension := Some ''js''\<rparr>) ?f))
      = Reject (Message (''Error 1109: Expression expected. (Line: 2, Col: 3)'' @ newline
                       @ ''Error 1005: ; expected. (No line map)''))"
    by simp
  then have "outcome (compile_throw (filtering_host ?N)
                    (app_adapter\<lparr>targetExtension := Some ''js''\<rparr>) ?f)
      = Throw (Message (''Error 1109: Expression expected. (Line: 2, Col: 3)'' @ newline
                       @ ''Error 1005: ; expected. (No line map)''))"
    by (rule settle_Reject)
  with config built built_throw three_errors_promise show ?thesis
    by (simp only: simp_thms)
qed

end
